theory Spec2Isabelle
  imports Complex_Main "HOL-Library.Word" "HOL-Library.AList"
begin

unbundle bit_operations_syntax

section \<open>JavaScript values, objects and the object store\<close>

text \<open>
  \<open>src/lib/index.js\<close> decodes the manufacturer specific data of iNode beacons from a
  Node.js \<open>Buffer\<close> into a plain object. A buffer is a list of bytes. A JavaScript number
  is modelled by the real number it denotes: the only non-integral numbers of the program
  are the quotients \<open>v / 16000\<close> and \<open>v / 10000\<close> of one IEEE division each, and the
  double is the correctly rounded image of the exact quotient written here. An object is
  its list of properties in insertion order; the objects the caller can hold a reference
  to live in a store, addressed by their index, so that mutation in place and the creation
  of a new object are told apart. The nested objects (\<open>position\<close>, \<open>magneticField\<close>,
  \<open>alarms\<close>) are object literals created by the decoder and reachable only through the
  record, so they are stored inline.
\<close>

type_synonym byte = "8 word"
type_synonym buffer = "byte list"

datatype jsval =
    Undefined
  | Num real
  | Str string
  | Boolean bool
  | Obj "(string \<times> jsval) list"

type_synonym obj = "(string \<times> jsval) list"
type_synonym ref = nat
type_synonym heap = "obj list"

text \<open>
  An exception is a value: the \<open>Error\<close> thrown by \<open>decodeMsd\<close> with its message, and the
  \<open>RangeError\<close> Node.js throws from \<open>readInt16LE\<close> and \<open>readUInt16LE\<close> when the offset
  leaves fewer than two bytes. A computation takes the store and returns the exception
  or the result together with the store as it is at that moment: what was written before
  a throw stays written.
\<close>

datatype js_error = Error string | RangeError

type_synonym 'a js = "heap \<Rightarrow> (js_error + 'a) \<times> heap"

definition getProp :: "obj \<Rightarrow> string \<Rightarrow> jsval" where
  "getProp ob k = (case map_of ob k of None \<Rightarrow> Undefined | Some v \<Rightarrow> v)"

definition keys :: "obj \<Rightarrow> string list" where
  "keys ob = map fst ob"

text \<open>
  \<open>msd.k = v\<close> on the object at address \<open>msd\<close>: an existing property keeps its place,
  a new one goes last. A reference always points into the store; the theorems about a
  record of the caller say so (\<open>msd < length h\<close>).
\<close>

definition setProp :: "ref \<Rightarrow> string \<Rightarrow> jsval \<Rightarrow> heap \<Rightarrow> heap" where
  "setProp msd k v h = h[msd := AList.update k v (h ! msd)]"

text \<open>\<open>Object.assign(target, source)\<close>: the source's properties, in order.\<close>

definition Object_assign :: "obj \<Rightarrow> obj \<Rightarrow> obj" where
  "Object_assign target source = foldl (\<lambda>t kv. AList.update (fst kv) (snd kv) t) target source"

text \<open>Running \<open>f\<close> and then \<open>g\<close>; an exception of \<open>f\<close> skips \<open>g\<close>.\<close>

definition seq :: "unit js \<Rightarrow> 'a js \<Rightarrow> 'a js" where
  "seq f g h = (case f h of (Inl e, h') \<Rightarrow> (Inl e, h') | (Inr _, h') \<Rightarrow> g h')"

section \<open>Buffer reads\<close>

text \<open>\<open>buffer[i]\<close>: the byte, or \<open>undefined\<close> (\<open>None\<close>) outside the buffer.\<close>

definition buffer_index :: "buffer \<Rightarrow> int \<Rightarrow> byte option" where
  "buffer_index buffer i =
     (if 0 \<le> i \<and> i < int (length buffer) then Some (buffer ! nat i) else None)"

text \<open>The operand conversion of \<open>&\<close> and \<open><<\<close>: \<open>undefined\<close> becomes 0.\<close>

definition ToInt32 :: "byte option \<Rightarrow> 32 word" where
  "ToInt32 v = (case v of None \<Rightarrow> 0 | Some b \<Rightarrow> ucast b)"

definition readUInt16LE :: "buffer \<Rightarrow> int \<Rightarrow> js_error + nat" where
  "readUInt16LE buffer offset =
     (if 0 \<le> offset \<and> offset + 2 \<le> int (length buffer)
      then Inr (unat (word_cat (buffer ! (nat offset + 1)) (buffer ! nat offset) :: 16 word))
      else Inl RangeError)"

definition readInt16LE :: "buffer \<Rightarrow> int \<Rightarrow> js_error + int" where
  "readInt16LE buffer offset =
     (if 0 \<le> offset \<and> offset + 2 \<le> int (length buffer)
      then Inr (sint (word_cat (buffer ! (nat offset + 1)) (buffer ! nat offset) :: 16 word))
      else Inl RangeError)"

text \<open>The text a template literal puts for a byte or for \<open>undefined\<close>.\<close>

fun decimal :: "nat \<Rightarrow> string" where
  "decimal n =
     (if n < 10 then [''0123456789'' ! n]
      else decimal (n div 10) @ [''0123456789'' ! (n mod 10)])"

declare decimal.simps [simp del]

definition toString :: "byte option \<Rightarrow> string" where
  "toString v = (case v of None \<Rightarrow> ''undefined'' | Some b \<Rightarrow> decimal (unat b))"

section \<open>The field decoders\<close>

definition Nav :: byte where
  "Nav = 0x89"

definition decodeAccelerometer :: "buffer \<Rightarrow> ref \<Rightarrow> unit js" where
  "decodeAccelerometer buffer msd h =
     (case readInt16LE buffer 2 of Inl e \<Rightarrow> (Inl e, h) | Inr x \<Rightarrow>
      case readInt16LE buffer 4 of Inl e \<Rightarrow> (Inl e, h) | Inr y \<Rightarrow>
      case readInt16LE buffer 6 of Inl e \<Rightarrow> (Inl e, h) | Inr z \<Rightarrow>
        (Inr (), setProp msd ''position''
           (Obj [(''x'', Num (real_of_int x / 16000)),
                 (''y'', Num (real_of_int y / 16000)),
                 (''z'', Num (real_of_int z / 16000))]) h))"

definition decodeMagneticField :: "buffer \<Rightarrow> ref \<Rightarrow> unit js" where
  "decodeMagneticField buffer msd h =
     (case readInt16LE buffer 8 of Inl e \<Rightarrow> (Inl e, h) | Inr x \<Rightarrow>
      case readInt16LE buffer 10 of Inl e \<Rightarrow> (Inl e, h) | Inr y \<Rightarrow>
      case readInt16LE buffer 12 of Inl e \<Rightarrow> (Inl e, h) | Inr z \<Rightarrow>
        (Inr (), setProp msd ''magneticField''
           (Obj [(''x'', Num (real_of_int x / 10000)),
                 (''y'', Num (real_of_int y / 10000)),
                 (''z'', Num (real_of_int z / 10000))]) h))"

definition decodeRtto :: "buffer \<Rightarrow> int \<Rightarrow> ref \<Rightarrow> unit js" where
  "decodeRtto buffer i msd h =
     (Inr (), setProp msd ''rtto'' (Boolean (ToInt32 (buffer_index buffer i) AND 0x02 \<noteq> 0)) h)"

text \<open>The three constants of \<open>decodeAlarms\<close>: \<open>battery\<close>, \<open>extended\<close> and \<open>alarms\<close>.\<close>

definition alarms_battery :: "buffer \<Rightarrow> int \<Rightarrow> 32 word" where
  "alarms_battery buffer batteryI =
     push_bit 13 (if batteryI = - 1 then 0 else ToInt32 (buffer_index buffer batteryI))
       AND 0x8000"

definition alarms_extended :: "buffer \<Rightarrow> int \<Rightarrow> js_error + nat" where
  "alarms_extended buffer extendedI =
     (if extendedI = - 1 then Inr 0 else readUInt16LE buffer extendedI)"

definition alarms_mask :: "nat \<Rightarrow> 32 word \<Rightarrow> 32 word" where
  "alarms_mask extended battery = of_nat extended OR battery"

definition extended_flags :: "32 word \<Rightarrow> obj" where
  "extended_flags alarms =
     [(''moveAccelerometer'', Boolean (alarms AND 0x01 \<noteq> 0)),
      (''levelAccelerometer'', Boolean (alarms AND 0x02 \<noteq> 0)),
      (''levelTemperature'', Boolean (alarms AND 0x04 \<noteq> 0)),
      (''levelHumidity'', Boolean (alarms AND 0x08 \<noteq> 0)),
      (''contactChange'', Boolean (alarms AND 0x10 \<noteq> 0)),
      (''moveStopped'', Boolean (alarms AND 0x20 \<noteq> 0)),
      (''moveGTimer'', Boolean (alarms AND 0x40 \<noteq> 0)),
      (''levelAccelerometerChange'', Boolean (alarms AND 0x80 \<noteq> 0)),
      (''levelMagnetChange'', Boolean (alarms AND 0x100 \<noteq> 0)),
      (''levelMagnetTimer'', Boolean (alarms AND 0x200 \<noteq> 0))]"

definition decodeAlarms :: "buffer \<Rightarrow> int \<Rightarrow> int \<Rightarrow> ref \<Rightarrow> unit js" where
  "decodeAlarms buffer batteryI extendedI msd h =
     (let battery = alarms_battery buffer batteryI in
      case alarms_extended buffer extendedI of
        Inl e \<Rightarrow> (Inl e, h)
      | Inr extended \<Rightarrow>
          (let alarms = alarms_mask extended battery;
               h1 = setProp msd ''alarms''
                      (Obj [(''lowBattery'', Boolean (alarms AND 0x8000 \<noteq> 0))]) h
           in if extendedI \<noteq> - 1
              then (case getProp (h1 ! msd) ''alarms'' of
                      Obj target \<Rightarrow>
                        (Inr (), setProp msd ''alarms''
                                   (Obj (Object_assign target (extended_flags alarms))) h1)
                    | _ \<Rightarrow> (Inr (), h1))
              else (Inr (), h1)))"

section \<open>The model registry and the two entry points\<close>

type_synonym decoder = "buffer \<Rightarrow> ref \<Rightarrow> unit js"

definition Nav_decoder :: decoder where
  "Nav_decoder buffer msd =
     seq (\<lambda>h. (Inr (), setProp msd ''model'' (Num (real (unat Nav))) h))
    (seq (\<lambda>h. (Inr (), setProp msd ''modelLabel'' (Str ''iNode Nav'') h))
    (seq (decodeAccelerometer buffer msd)
    (seq (decodeMagneticField buffer msd)
    (seq (decodeRtto buffer 0 msd)
         (decodeAlarms buffer 0 (- 1) msd)))))"

text \<open>\<open>exports.msdDecoders[deviceModel]\<close>: one entry, under the key of \<open>DeviceModel.Nav\<close>.\<close>

definition msdDecoders :: "byte option \<Rightarrow> decoder option" where
  "msdDecoders deviceModel =
     (case deviceModel of
        None \<Rightarrow> None
      | Some m \<Rightarrow> if m = Nav then Some Nav_decoder else None)"

text \<open>
  \<open>EirDataType\<close> belongs to the host library \<open>h5.bluetooth.hci\<close>: the tag of the
  manufacturer specific data and the label the host's enumeration gives for it are
  parameters of the model.
\<close>

record EirDataType =
  ManufacturerSpecificData :: nat
  ManufacturerSpecificData_label :: jsval

definition unknown_model_message :: "byte option \<Rightarrow> string" where
  "unknown_model_message deviceModel =
     ''Cannot decode iNode MSD: '' @ [CHR 0x27] @ toString deviceModel @ [CHR 0x27]
       @ '' is not a valid device model!''"

definition decodeMsd :: "EirDataType \<Rightarrow> buffer \<Rightarrow> ref option \<Rightarrow> ref js" where
  "decodeMsd E buffer msd h =
     (let deviceModel = buffer_index buffer 1 in
      case msdDecoders deviceModel of
        None \<Rightarrow> (Inl (Error (unknown_model_message deviceModel)), h)
      | Some deviceModelDecoder \<Rightarrow>
          (case msd of
             None \<Rightarrow>
               (case readUInt16LE buffer 0 of
                  Inl e \<Rightarrow> (Inl e, h)
                | Inr companyIdentifier \<Rightarrow>
                    seq (deviceModelDecoder buffer (length h)) (\<lambda>h'. (Inr (length h), h'))
                      (h @ [[(''type'', Num (real (ManufacturerSpecificData E))),
                             (''typeLabel'', ManufacturerSpecificData_label E),
                             (''companyIdentifier'', Num (real companyIdentifier))]]))
           | Some r \<Rightarrow> seq (deviceModelDecoder buffer r) (\<lambda>h'. (Inr r, h')) h))"

text \<open>
  The function \<open>registerManufacturerSpecificDataDecoder\<close> installs: the closure over
  \<open>originalDecoder\<close>, the entry the host had at the slot (\<open>None\<close> when it had none).
  It returns nothing; what the decoder it calls throws, it throws.
\<close>

definition installed_decoder :: "decoder option \<Rightarrow> decoder" where
  "installed_decoder originalDecoder buffer msd h =
     (let deviceModel = buffer_index buffer 1 in
      case msdDecoders deviceModel of
        Some deviceModelDecoder \<Rightarrow> deviceModelDecoder buffer msd h
      | None \<Rightarrow>
          (case originalDecoder of
             Some original \<Rightarrow> original buffer msd h
           | None \<Rightarrow> (Inr (), h)))"

definition registerManufacturerSpecificDataDecoder ::
    "EirDataType \<Rightarrow> (nat \<rightharpoonup> decoder) \<Rightarrow> (nat \<rightharpoonup> decoder)" where
  "registerManufacturerSpecificDataDecoder E eirDataTypeDecoders =
     (let originalDecoder = eirDataTypeDecoders (ManufacturerSpecificData E) in
      eirDataTypeDecoders(ManufacturerSpecificData E \<mapsto> installed_decoder originalDecoder))"

section \<open>Notions used to state the properties\<close>

text \<open>
  The specification's reading of a field: the signed 16-bit little-endian integer at byte
  offset \<open>k\<close>, in arithmetic (low byte plus 256 times high byte, less 65536 from 32768
  upwards).
\<close>

definition signed16_le :: "buffer \<Rightarrow> nat \<Rightarrow> int" where
  "signed16_le buffer k =
     (let u = int (unat (buffer ! k)) + 256 * int (unat (buffer ! (k + 1)))
      in if u < 32768 then u else u - 65536)"

text \<open>A record the caller supplies is an object of the store.\<close>

definition allocated :: "ref option \<Rightarrow> heap \<Rightarrow> bool" where
  "allocated msd h = (case msd of None \<Rightarrow> True | Some r \<Rightarrow> r < length h)"

text \<open>The numbers the Bluetooth assigned-numbers list gives the host for closed examples.\<close>

definition bluetooth_EirDataType :: EirDataType where
  "bluetooth_EirDataType =
     \<lparr>ManufacturerSpecificData = 0xFF,
      ManufacturerSpecificData_label = Str ''ManufacturerSpecificData''\<rparr>"

text \<open>A well-formed Nav payload and a host registry without entries, for closed examples.\<close>

definition Nav_example :: buffer where
  "Nav_example =
     [0x4C, 0x89, 0x01, 0x00, 0xF8, 0xFF, 0x00, 0x00, 0x10, 0x00, 0x00, 0x00, 0x00, 0x00]"

definition empty_registry :: "nat \<rightharpoonup> decoder" where
  "empty_registry = Map.empty"

section \<open>Auxiliary facts\<close>

lemma msdDecoders_Some_iff:
  "msdDecoders v = Some d \<longleftrightarrow> v = Some 0x89 \<and> d = Nav_decoder"
  by (auto simp: msdDecoders_def Nav_def split: option.splits)

lemma msdDecoders_None_iff:
  "msdDecoders v = None \<longleftrightarrow> v \<noteq> Some 0x89"
  by (auto simp: msdDecoders_def Nav_def split: option.splits)

lemma buffer_index_short: "length buffer < 2 \<Longrightarrow> buffer_index buffer 1 = None"
  by (simp add: buffer_index_def)

lemma setProp_length [simp]: "length (setProp msd k v h) = length h"
  by (simp add: setProp_def)

lemma setProp_nth_same: "msd < length h \<Longrightarrow> setProp msd k v h ! msd = AList.update k v (h ! msd)"
  by (simp add: setProp_def)

lemma setProp_nth_other: "r \<noteq> msd \<Longrightarrow> setProp msd k v h ! r = h ! r"
  by (simp add: setProp_def)

lemma getProp_update:
  "getProp (AList.update k v ob) k' = (if k' = k then v else getProp ob k')"
  by (simp add: getProp_def update_conv')

lemma readInt16LE_in:
  "0 \<le> i \<Longrightarrow> i + 2 \<le> int (length buffer) \<Longrightarrow>
   readInt16LE buffer i = Inr (sint (word_cat (buffer ! (nat i + 1)) (buffer ! nat i) :: 16 word))"
  by (simp add: readInt16LE_def)

lemma decodeAccelerometer_long:
  "8 \<le> length buffer \<Longrightarrow>
   decodeAccelerometer buffer msd h =
     (Inr (), setProp msd ''position''
        (Obj [(''x'', Num (real_of_int (sint (word_cat (buffer ! 3) (buffer ! 2) :: 16 word)) / 16000)),
              (''y'', Num (real_of_int (sint (word_cat (buffer ! 5) (buffer ! 4) :: 16 word)) / 16000)),
              (''z'', Num (real_of_int (sint (word_cat (buffer ! 7) (buffer ! 6) :: 16 word)) / 16000))]) h)"
  by (simp add: decodeAccelerometer_def readInt16LE_in)

lemma decodeAccelerometer_short:
  "length buffer < 8 \<Longrightarrow> decodeAccelerometer buffer msd h = (Inl RangeError, h)"
  by (simp add: decodeAccelerometer_def readInt16LE_def)

lemma decodeMagneticField_long:
  "14 \<le> length buffer \<Longrightarrow>
   decodeMagneticField buffer msd h =
     (Inr (), setProp msd ''magneticField''
        (Obj [(''x'', Num (real_of_int (sint (word_cat (buffer ! 9) (buffer ! 8) :: 16 word)) / 10000)),
              (''y'', Num (real_of_int (sint (word_cat (buffer ! 11) (buffer ! 10) :: 16 word)) / 10000)),
              (''z'', Num (real_of_int (sint (word_cat (buffer ! 13) (buffer ! 12) :: 16 word)) / 10000))]) h)"
  by (simp add: decodeMagneticField_def readInt16LE_in)

lemma decodeMagneticField_short:
  "length buffer < 14 \<Longrightarrow> decodeMagneticField buffer msd h = (Inl RangeError, h)"
  by (simp add: decodeMagneticField_def readInt16LE_def)

lemma decodeAlarms_absent:
  "decodeAlarms buffer batteryI (- 1) msd h =
     (Inr (), setProp msd ''alarms''
        (Obj [(''lowBattery'', Boolean (alarms_battery buffer batteryI AND 0x8000 \<noteq> 0))]) h)"
  by (simp add: decodeAlarms_def alarms_extended_def alarms_mask_def)

lemma Nav_decoder_long:
  "14 \<le> length buffer \<Longrightarrow>
   Nav_decoder buffer msd h =
     (Inr (),
      setProp msd ''alarms'' (Obj [(''lowBattery'', Boolean (alarms_battery buffer 0 AND 0x8000 \<noteq> 0))])
     (setProp msd ''rtto'' (Boolean (ToInt32 (buffer_index buffer 0) AND 0x02 \<noteq> 0))
     (setProp msd ''magneticField''
        (Obj [(''x'', Num (real_of_int (sint (word_cat (buffer ! 9) (buffer ! 8) :: 16 word)) / 10000)),
              (''y'', Num (real_of_int (sint (word_cat (buffer ! 11) (buffer ! 10) :: 16 word)) / 10000)),
              (''z'', Num (real_of_int (sint (word_cat (buffer ! 13) (buffer ! 12) :: 16 word)) / 10000))])
     (setProp msd ''position''
        (Obj [(''x'', Num (real_of_int (sint (word_cat (buffer ! 3) (buffer ! 2) :: 16 word)) / 16000)),
              (''y'', Num (real_of_int (sint (word_cat (buffer ! 5) (buffer ! 4) :: 16 word)) / 16000)),
              (''z'', Num (real_of_int (sint (word_cat (buffer ! 7) (buffer ! 6) :: 16 word)) / 16000))])
     (setProp msd ''modelLabel'' (Str ''iNode Nav'')
     (setProp msd ''model'' (Num 137) h))))))"
  by (simp add: Nav_decoder_def seq_def decodeAccelerometer_long decodeMagneticField_long
      decodeRtto_def decodeAlarms_absent Nav_def)

lemma Nav_decoder_short:
  "length buffer < 14 \<Longrightarrow>
   fst (Nav_decoder buffer msd h) = Inl RangeError"
  by (cases "8 \<le> length buffer")
    (simp_all add: Nav_decoder_def seq_def decodeAccelerometer_long decodeAccelerometer_short
      decodeMagneticField_short)

lemma Nav_decoder_no_Error:
  "fst (Nav_decoder buffer msd h) \<noteq> Inl (Error s)"
  by (cases "14 \<le> length buffer") (simp_all add: Nav_decoder_long Nav_decoder_short)

lemma buffer_index_1_Some: "buffer_index buffer 1 = Some b \<Longrightarrow> 2 \<le> length buffer \<and> buffer ! 1 = b"
  by (auto simp: buffer_index_def split: if_splits)

lemma decodeMsd_Nav_new:
  "buffer_index buffer 1 = Some 0x89 \<Longrightarrow>
   decodeMsd E buffer None h =
     seq (Nav_decoder buffer (length h)) (\<lambda>h'. (Inr (length h), h'))
       (h @ [[(''type'', Num (real (ManufacturerSpecificData E))),
              (''typeLabel'', ManufacturerSpecificData_label E),
              (''companyIdentifier'',
                 Num (real (unat (word_cat (buffer ! 1) (buffer ! 0) :: 16 word))))]])"
  by (frule buffer_index_1_Some)
    (simp add: decodeMsd_def msdDecoders_def Nav_def readUInt16LE_def)

lemma decodeMsd_Nav_existing:
  "buffer_index buffer 1 = Some 0x89 \<Longrightarrow>
   decodeMsd E buffer (Some r) h = seq (Nav_decoder buffer r) (\<lambda>h'. (Inr r, h')) h"
  by (simp add: decodeMsd_def msdDecoders_def Nav_def)

lemma decodeMsd_unregistered:
  "msdDecoders (buffer_index buffer 1) = None \<Longrightarrow>
   decodeMsd E buffer msd h = (Inl (Error (unknown_model_message (buffer_index buffer 1))), h)"
  by (simp add: decodeMsd_def)

lemma seq_return_fst:
  "fst (seq f (\<lambda>h'. (Inr r, h')) h) = (case fst (f h) of Inl e \<Rightarrow> Inl e | Inr _ \<Rightarrow> Inr r)"
  by (simp add: seq_def split: prod.splits sum.splits)

lemma decodeMsd_registered_no_Error:
  assumes "msdDecoders (buffer_index buffer 1) \<noteq> None"
  shows "fst (decodeMsd E buffer msd h) \<noteq> Inl (Error s)"
proof -
  from assms have b: "buffer_index buffer 1 = Some 0x89"
    by (simp add: msdDecoders_None_iff)
  show ?thesis
  proof (cases msd)
    case None
    with b Nav_decoder_no_Error [of buffer "length h" _ s] show ?thesis
      by (auto simp: decodeMsd_Nav_new seq_return_fst split: sum.splits)
  next
    case (Some r)
    with b Nav_decoder_no_Error [of buffer r h s] show ?thesis
      by (auto simp: decodeMsd_Nav_existing seq_return_fst split: sum.splits)
  qed
qed

subsection \<open>The decimal text of an identifier is injective\<close>

lemma digit_inj:
  "a < 10 \<Longrightarrow> b < 10 \<Longrightarrow> ''0123456789'' ! a = ''0123456789'' ! b \<Longrightarrow> a = b"
proof -
  have cases10: "\<And>n::nat. n < 10 \<Longrightarrow> n \<in> {0, 1, 2, 3, 4, 5, 6, 7, 8, 9}" by auto
  assume "a < 10" "b < 10" and eq: "''0123456789'' ! a = ''0123456789'' ! b"
  from cases10 [OF \<open>a < 10\<close>] cases10 [OF \<open>b < 10\<close>] eq show ?thesis
    by auto
qed

lemma decimal_nonempty: "decimal n \<noteq> []" "[] \<noteq> decimal n"
  by (subst decimal.simps, simp)+

lemma last_decimal: "last (decimal n) = ''0123456789'' ! (n mod 10)"
  by (subst decimal.simps) simp

lemma butlast_decimal: "butlast (decimal n) = (if n < 10 then [] else decimal (n div 10))"
  by (subst decimal.simps) simp

lemma decimal_inj: "decimal n = decimal m \<Longrightarrow> n = m"
proof (induction n arbitrary: m rule: decimal.induct)
  case (1 n)
  from "1.prems" have l: "''0123456789'' ! (n mod 10) = ''0123456789'' ! (m mod 10)"
    by (metis last_decimal)
  then have md: "n mod 10 = m mod 10"
    by (intro digit_inj) simp_all
  from "1.prems" have bl: "butlast (decimal n) = butlast (decimal m)" by simp
  show ?case
  proof (cases "n < 10")
    case True
    with bl have "m < 10"
      by (auto simp: butlast_decimal decimal_nonempty split: if_splits)
    with True md show ?thesis by simp
  next
    case False
    with bl have m: "\<not> m < 10" and "decimal (n div 10) = decimal (m div 10)"
      by (auto simp: butlast_decimal decimal_nonempty split: if_splits)
    with "1.IH" False have "n div 10 = m div 10" by simp
    with md show ?thesis by (metis div_mult_mod_eq)
  qed
qed

lemma decimal_not_undefined: "decimal n \<noteq> ''undefined''"
proof
  assume "decimal n = ''undefined''"
  then have "last (decimal n) = CHR ''d''" by simp
  moreover have "n mod 10 \<in> {0, 1, 2, 3, 4, 5, 6, 7, 8, 9}" by (simp; presburger)
  ultimately show False by (auto simp: last_decimal)
qed

lemma toString_inj: "toString v = toString w \<Longrightarrow> v = w"
  by (auto simp: toString_def decimal_not_undefined decimal_not_undefined [symmetric]
      split: option.splits dest!: decimal_inj word_unat_eq_iff [THEN iffD2])

subsection \<open>Bits of the alarm mask and the value of a 16-bit read\<close>

lemma and_4_bit: "((b :: byte) AND 0x04 \<noteq> 0) = bit b 2"
  using bit_iff_and_push_bit_not_eq_0 [of b 2] by simp

lemma bit_8000_int: "bit (0x8000 :: int) n \<longleftrightarrow> n = 15"
proof -
  have "(0x8000 :: int) = 2 ^ 15" by simp
  then show ?thesis by (simp only: bit_exp_iff) auto
qed

lemma battery_bit:
  "push_bit 13 (ucast (b :: byte) :: 32 word) AND 0x8000 = (if b AND 0x04 \<noteq> 0 then 0x8000 else 0)"
  unfolding and_4_bit
  by (rule bit_word_eqI) (auto simp: bit_simps bit_8000_int)

lemma uint_cat:
  "uint (word_cat (hi :: byte) (lo :: byte) :: 16 word) = uint lo + 256 * uint hi"
proof -
  have l: "uint lo < 256" using uint_lt2p [of lo] by simp
  have h: "uint hi < 256" using uint_lt2p [of hi] by simp
  have l0: "0 \<le> uint lo" and h0: "0 \<le> uint hi" by simp_all
  have "uint (word_cat hi lo :: 16 word) = take_bit 16 (concat_bit 8 (uint lo) (uint hi))"
    by (simp only: word_cat_eq' uint_word_of_int_eq) simp
  also have "\<dots> = take_bit 16 (uint lo + 256 * uint hi)"
    using l l0 by (simp add: concat_bit_eq take_bit_eq_mod push_bit_eq_mult mult.commute)
  also have "\<dots> = uint lo + 256 * uint hi"
    using l h l0 h0 by (simp add: take_bit_eq_mod)
  finally show ?thesis .
qed

lemma sint_cat:
  shows "sint (word_cat (hi :: byte) (lo :: byte) :: 16 word) =
     (if uint lo + 256 * uint hi < 32768 then uint lo + 256 * uint hi
      else uint lo + 256 * uint hi - 65536)"
proof -
  have l: "uint lo < 256" using uint_lt2p [of lo] by simp
  have h: "uint hi < 256" using uint_lt2p [of hi] by simp
  have l0: "0 \<le> uint lo" and h0: "0 \<le> uint hi" by simp_all
  define x where "x = uint lo + 256 * uint hi"
  have x: "0 \<le> x" "x < 65536" using l h l0 h0 by (simp_all add: x_def)
  have "sint (word_cat hi lo :: 16 word) = (x + 32768) mod 65536 - 32768"
    by (simp add: sint_uint uint_cat signed_take_bit_eq_take_bit_shift take_bit_eq_mod x_def)
  also have "\<dots> = (if x < 32768 then x else x - 65536)"
  proof (cases "x < 32768")
    case True
    with x show ?thesis by simp
  next
    case False
    have e: "x + 32768 = x - 32768 + 65536" by simp
    have "(x + 32768) mod 65536 = (x - 32768) mod 65536"
      by (subst e) (rule mod_add_self2)
    also from False x have "\<dots> = x - 32768" by simp
    finally show ?thesis using False by simp
  qed
  finally show ?thesis by (simp add: x_def)
qed

lemma and_80_bit: "((b :: byte) AND 0x80 \<noteq> 0) = bit b 7"
  using bit_iff_and_push_bit_not_eq_0 [of b 7] by simp

lemma and_8000_bit: "((w :: 32 word) AND 0x8000 \<noteq> 0) = bit w 15"
  using bit_iff_and_push_bit_not_eq_0 [of w 15] by simp

lemma alarms_battery_present:
  "0 \<le> batteryI \<Longrightarrow> batteryI < int (length buffer) \<Longrightarrow>
   alarms_battery buffer batteryI = (if buffer ! nat batteryI AND 0x04 \<noteq> 0 then 0x8000 else 0)"
  by (simp add: alarms_battery_def buffer_index_def ToInt32_def battery_bit)

lemma alarms_mask_bit15:
  "(alarms_mask (unat (word_cat (hi :: byte) (lo :: byte) :: 16 word)) battery AND 0x8000 \<noteq> 0)
     = (hi AND 0x80 \<noteq> 0 \<or> battery AND 0x8000 \<noteq> 0)"
  unfolding and_80_bit and_8000_bit alarms_mask_def
  by (simp add: bit_simps)

lemma Object_assign_lowBattery:
  "getProp (Object_assign [(''lowBattery'', v)] (extended_flags alarms)) ''lowBattery'' = v"
  by (simp add: Object_assign_def extended_flags_def getProp_def)

lemma decodeAlarms_present:
  "0 \<le> extendedI \<Longrightarrow> extendedI + 2 \<le> int (length buffer) \<Longrightarrow> msd < length h \<Longrightarrow>
   decodeAlarms buffer batteryI extendedI msd h =
     (Inr (), setProp msd ''alarms''
        (Obj (Object_assign
           [(''lowBattery'',
             Boolean (buffer ! (nat extendedI + 1) AND 0x80 \<noteq> 0
                      \<or> alarms_battery buffer batteryI AND 0x8000 \<noteq> 0))]
           (extended_flags
              (alarms_mask (unat (word_cat (buffer ! (nat extendedI + 1)) (buffer ! nat extendedI) :: 16 word))
                 (alarms_battery buffer batteryI))))) h)"
  by (simp add: decodeAlarms_def alarms_extended_def readUInt16LE_def alarms_mask_bit15
      setProp_nth_same getProp_update setProp_def Let_def)

subsection \<open>What a run of the Nav pipeline leaves\<close>

lemma sint_cat_signed16_le:
  "sint (word_cat (buffer ! Suc k) (buffer ! k) :: 16 word) = signed16_le buffer k"
  by (simp add: signed16_le_def sint_cat Let_def)

lemma unat_cat:
  "unat (word_cat (hi :: byte) (lo :: byte) :: 16 word) = unat lo + 256 * unat hi"
proof -
  have "int (unat (word_cat hi lo :: 16 word)) = int (unat lo + 256 * unat hi)"
    using uint_cat [of hi lo] by simp
  then show ?thesis by (simp only: of_nat_eq_iff)
qed

lemma Nav_decoder_long_fst:
  "14 \<le> length buffer \<Longrightarrow> fst (Nav_decoder buffer msd h) = Inr ()"
  by (simp add: Nav_decoder_long)

lemma Nav_decoder_fields:
  assumes "14 \<le> length buffer" and "msd < length h"
  shows "getProp (snd (Nav_decoder buffer msd h) ! msd) ''model'' = Num 0x89"
    and "getProp (snd (Nav_decoder buffer msd h) ! msd) ''modelLabel'' = Str ''iNode Nav''"
    and "getProp (snd (Nav_decoder buffer msd h) ! msd) ''position'' =
           Obj [(''x'', Num (real_of_int (signed16_le buffer 2) / 16000)),
                (''y'', Num (real_of_int (signed16_le buffer 4) / 16000)),
                (''z'', Num (real_of_int (signed16_le buffer 6) / 16000))]"
    and "getProp (snd (Nav_decoder buffer msd h) ! msd) ''magneticField'' =
           Obj [(''x'', Num (real_of_int (signed16_le buffer 8) / 10000)),
                (''y'', Num (real_of_int (signed16_le buffer 10) / 10000)),
                (''z'', Num (real_of_int (signed16_le buffer 12) / 10000))]"
    and "getProp (snd (Nav_decoder buffer msd h) ! msd) ''rtto'' =
           Boolean (buffer ! 0 AND 0x02 \<noteq> 0)"
    and "getProp (snd (Nav_decoder buffer msd h) ! msd) ''alarms'' =
           Obj [(''lowBattery'', Boolean (buffer ! 0 AND 0x04 \<noteq> 0))]"
proof -
  note s = Nav_decoder_long [OF assms(1)] setProp_nth_same getProp_update assms(2)
  show "getProp (snd (Nav_decoder buffer msd h) ! msd) ''model'' = Num 0x89"
    by (simp add: s)
  show "getProp (snd (Nav_decoder buffer msd h) ! msd) ''modelLabel'' = Str ''iNode Nav''"
    by (simp add: s)
  show "getProp (snd (Nav_decoder buffer msd h) ! msd) ''position'' =
           Obj [(''x'', Num (real_of_int (signed16_le buffer 2) / 16000)),
                (''y'', Num (real_of_int (signed16_le buffer 4) / 16000)),
                (''z'', Num (real_of_int (signed16_le buffer 6) / 16000))]"
    using sint_cat_signed16_le [of buffer 2] sint_cat_signed16_le [of buffer 4]
      sint_cat_signed16_le [of buffer 6]
    by (simp add: s)
  show "getProp (snd (Nav_decoder buffer msd h) ! msd) ''magneticField'' =
           Obj [(''x'', Num (real_of_int (signed16_le buffer 8) / 10000)),
                (''y'', Num (real_of_int (signed16_le buffer 10) / 10000)),
                (''z'', Num (real_of_int (signed16_le buffer 12) / 10000))]"
    using sint_cat_signed16_le [of buffer 8] sint_cat_signed16_le [of buffer 10]
      sint_cat_signed16_le [of buffer 12]
    by (simp add: s)
  from assms(1) have b0: "buffer_index buffer 0 = Some (buffer ! 0)"
    by (auto simp: buffer_index_def)
  have u: "((ucast (buffer ! 0) :: 32 word) AND 2 \<noteq> 0) = (buffer ! 0 AND 2 \<noteq> 0)"
    using bit_iff_and_push_bit_not_eq_0 [of "ucast (buffer ! 0) :: 32 word" 1]
      bit_iff_and_push_bit_not_eq_0 [of "buffer ! 0" 1]
    by (simp add: bit_simps)
  show "getProp (snd (Nav_decoder buffer msd h) ! msd) ''rtto'' =
           Boolean (buffer ! 0 AND 0x02 \<noteq> 0)"
    using u by (simp add: s b0 ToInt32_def)
  from assms(1) have "alarms_battery buffer 0 =
      (if buffer ! nat 0 AND 0x04 \<noteq> 0 then 0x8000 else 0)"
    by (intro alarms_battery_present) auto
  then show "getProp (snd (Nav_decoder buffer msd h) ! msd) ''alarms'' =
           Obj [(''lowBattery'', Boolean (buffer ! 0 AND 0x04 \<noteq> 0))]"
    by (simp add: s)
qed

lemma Nav_decoder_frame:
  assumes "14 \<le> length buffer"
  shows "length (snd (Nav_decoder buffer msd h)) = length h"
    and "q \<noteq> msd \<Longrightarrow> snd (Nav_decoder buffer msd h) ! q = h ! q"
    and "msd < length h \<Longrightarrow>
         k \<notin> {''model'', ''modelLabel'', ''position'', ''magneticField'', ''rtto'', ''alarms''} \<Longrightarrow>
         map_of (snd (Nav_decoder buffer msd h) ! msd) k = map_of (h ! msd) k"
  by (simp_all add: Nav_decoder_long [OF assms] setProp_nth_same setProp_nth_other update_conv')

lemma buffer_index_1_long:
  "14 \<le> length buffer \<Longrightarrow> buffer_index buffer 1 = Some (buffer ! 1)"
  by (simp add: buffer_index_def)

lemma decodeMsd_long_existing:
  assumes "14 \<le> length buffer" and "buffer ! 1 = 0x89"
  shows "decodeMsd E buffer (Some r) h = (Inr r, snd (Nav_decoder buffer r h))"
proof -
  from assms have "buffer_index buffer 1 = Some 0x89"
    by (simp add: buffer_index_1_long)
  then show ?thesis
    by (simp add: decodeMsd_Nav_existing seq_def Nav_decoder_long [OF assms(1)])
qed

lemma decodeMsd_long_new:
  assumes "14 \<le> length buffer" and "buffer ! 1 = 0x89"
  shows "decodeMsd E buffer None h =
    (Inr (length h),
     snd (Nav_decoder buffer (length h)
       (h @ [[(''type'', Num (real (ManufacturerSpecificData E))),
              (''typeLabel'', ManufacturerSpecificData_label E),
              (''companyIdentifier'', Num (real (unat (buffer ! 0) + 256 * unat (buffer ! 1))))]])))"
proof -
  from assms have "buffer_index buffer 1 = Some 0x89"
    by (simp add: buffer_index_1_long)
  then show ?thesis
    by (simp add: decodeMsd_Nav_new seq_def Nav_decoder_long [OF assms(1)] unat_cat)
qed

lemma decodeMsd_Inr_long:
  assumes "decodeMsd E buffer msd h = (Inr r, h')"
  shows "14 \<le> length buffer \<and> buffer ! 1 = 0x89"
proof -
  have reg: "buffer_index buffer 1 = Some 0x89"
  proof (rule ccontr)
    assume "buffer_index buffer 1 \<noteq> Some 0x89"
    then have "msdDecoders (buffer_index buffer 1) = None"
      by (simp add: msdDecoders_None_iff)
    with assms show False by (simp add: decodeMsd_unregistered)
  qed
  have "14 \<le> length buffer"
  proof (rule ccontr)
    assume "\<not> 14 \<le> length buffer"
    then have short: "\<And>r h. fst (Nav_decoder buffer r h) = Inl RangeError"
      by (simp add: Nav_decoder_short)
    have "fst (decodeMsd E buffer msd h) = Inl RangeError"
      by (cases msd) (simp_all add: decodeMsd_Nav_new decodeMsd_Nav_existing reg
          seq_return_fst short)
    with assms show False by simp
  qed
  with reg show ?thesis by (simp add: buffer_index_1_long)
qed

lemma decodeMsd_long:
  assumes "14 \<le> length buffer" and "buffer ! 1 = 0x89" and "allocated msd h"
  shows "\<exists>r h0. decodeMsd E buffer msd h = (Inr r, snd (Nav_decoder buffer r h0)) \<and> r < length h0"
proof (cases msd)
  case None
  then show ?thesis
    by (auto simp: decodeMsd_long_new [OF assms(1,2)] intro!: exI)
next
  case (Some r)
  with assms(3) show ?thesis
    by (auto simp: decodeMsd_long_existing [OF assms(1,2)] allocated_def intro!: exI)
qed

subsection \<open>Buffers that agree on their first 14 bytes\<close>

lemma take_14_nth: "take 14 b1 = take 14 b2 \<Longrightarrow> i < 14 \<Longrightarrow> b1 ! i = b2 ! i"
  by (metis nth_take)

lemma buffer_index_agree:
  assumes "14 \<le> length b1" "14 \<le> length b2" "take 14 b1 = take 14 b2"
    and "i < 14"
  shows "buffer_index b1 i = buffer_index b2 i"
proof (cases "0 \<le> i")
  case True
  with assms(4) have "nat i < 14" by simp
  with assms(3) have "b1 ! nat i = b2 ! nat i" by (rule take_14_nth)
  with assms(1,2,4) True show ?thesis by (simp add: buffer_index_def)
next
  case False
  then show ?thesis by (simp add: buffer_index_def)
qed

lemma decoders_agree:
  assumes "14 \<le> length b1" "14 \<le> length b2" "take 14 b1 = take 14 b2"
  shows "decodeAccelerometer b1 = decodeAccelerometer b2"
    and "decodeMagneticField b1 = decodeMagneticField b2"
    and "decodeRtto b1 0 = decodeRtto b2 0"
    and "decodeAlarms b1 0 (- 1) = decodeAlarms b2 0 (- 1)"
    and "Nav_decoder b1 = Nav_decoder b2"
proof -
  note n = take_14_nth [OF assms(3)] and b = buffer_index_agree [OF assms]
  from assms(1,2) have l: "8 \<le> length b1" "8 \<le> length b2" by simp_all
  show acc: "decodeAccelerometer b1 = decodeAccelerometer b2"
    by (intro ext) (simp add: decodeAccelerometer_long l n)
  show mag: "decodeMagneticField b1 = decodeMagneticField b2"
    by (intro ext) (simp add: decodeMagneticField_long assms(1,2) n)
  show rtto: "decodeRtto b1 0 = decodeRtto b2 0"
    by (intro ext) (simp add: decodeRtto_def b)
  show al: "decodeAlarms b1 0 (- 1) = decodeAlarms b2 0 (- 1)"
    by (intro ext) (simp add: decodeAlarms_absent alarms_battery_def b)
  show "Nav_decoder b1 = Nav_decoder b2"
    by (intro ext) (simp add: Nav_decoder_def acc mag rtto al)
qed

lemma decodeMsd_agree:
  assumes "14 \<le> length b1" "14 \<le> length b2" "take 14 b1 = take 14 b2"
  shows "decodeMsd E b1 msd h = decodeMsd E b2 msd h"
proof -
  have n: "b1 ! 0 = b2 ! 0" "b1 ! 1 = b2 ! 1"
    using take_14_nth [OF assms(3), of 0] take_14_nth [OF assms(3), of 1] by simp_all
  note nav = decoders_agree(5) [OF assms]
  show ?thesis
  proof (cases "b1 ! 1 = 0x89")
    case True
    with n have "b2 ! 1 = 0x89" by simp
    with True assms(1,2) n nav show ?thesis
      by (cases msd) (simp_all add: decodeMsd_long_new decodeMsd_long_existing)
  next
    case False
    with assms(1) have u1: "msdDecoders (buffer_index b1 1) = None"
      by (simp add: msdDecoders_None_iff buffer_index_1_long)
    from False n assms(2) have u2: "msdDecoders (buffer_index b2 1) = None"
      by (simp add: msdDecoders_None_iff buffer_index_1_long)
    from assms n have "buffer_index b1 1 = buffer_index b2 1"
      by (simp add: buffer_index_1_long)
    then show ?thesis
      by (simp add: decodeMsd_unregistered u1 u2)
  qed
qed

lemma decodeMsd_result:
  assumes "decodeMsd E buffer msd h = (Inr r, h')" and "allocated msd h"
  shows "\<exists>h0. h' = snd (Nav_decoder buffer r h0) \<and> r < length h0 \<and> 14 \<le> length buffer"
proof -
  from assms(1) have long: "14 \<le> length buffer" "buffer ! 1 = 0x89"
    using decodeMsd_Inr_long by blast+
  from decodeMsd_long [OF long assms(2), of E] assms(1) long(1) show ?thesis
    by auto
qed

lemma signed16_le_agree:
  assumes "take 14 b1 = take 14 b2" and "k < 13"
  shows "signed16_le b1 k = signed16_le b2 k"
proof -
  from assms(2) have "k < 14" "k + 1 < 14" by simp_all
  then have "b1 ! k = b2 ! k" "b1 ! (k + 1) = b2 ! (k + 1)"
    by (simp_all only: take_14_nth [OF assms(1)])
  then show ?thesis by (simp add: signed16_le_def)
qed

lemma decodeAccelerometer_frame:
  "r < length h \<Longrightarrow> k \<noteq> ''position'' \<Longrightarrow>
   getProp (snd (decodeAccelerometer buffer r h) ! r) k = getProp (h ! r) k"
  by (simp add: decodeAccelerometer_def setProp_nth_same getProp_update split: sum.splits)

lemma decodeMagneticField_frame:
  "r < length h \<Longrightarrow> k \<noteq> ''magneticField'' \<Longrightarrow>
   getProp (snd (decodeMagneticField buffer r h) ! r) k = getProp (h ! r) k"
  by (simp add: decodeMagneticField_def setProp_nth_same getProp_update split: sum.splits)

lemma decodeRtto_frame:
  "r < length h \<Longrightarrow> k \<noteq> ''rtto'' \<Longrightarrow>
   getProp (snd (decodeRtto buffer i r h) ! r) k = getProp (h ! r) k"
  by (simp add: decodeRtto_def setProp_nth_same getProp_update)

lemma decodeAlarms_frame:
  "r < length h \<Longrightarrow> k \<noteq> ''alarms'' \<Longrightarrow>
   getProp (snd (decodeAlarms buffer batteryI extendedI r h) ! r) k = getProp (h ! r) k"
  by (simp add: decodeAlarms_def Let_def setProp_nth_same getProp_update split: sum.splits)

subsection \<open>The record of a decode, by the length of the buffer\<close>

lemma decodeMsd_long_record:
  "14 \<le> length buffer \<Longrightarrow> buffer ! 1 = Nav \<Longrightarrow>
   (\<exists>h'. decodeMsd E buffer None h = (Inr (length h), h')
      \<and> length h' = Suc (length h) \<and> take (length h) h' = h
      \<and> getProp (h' ! length h) ''companyIdentifier'' =
          Num (real (unat (buffer ! 0) + 256 * unat (buffer ! 1)))
      \<and> getProp (h' ! length h) ''type'' = Num (real (ManufacturerSpecificData E))
      \<and> getProp (h' ! length h) ''typeLabel'' = ManufacturerSpecificData_label E)
   \<and> (r < length h \<longrightarrow>
        (\<exists>h'. decodeMsd E buffer (Some r) h = (Inr r, h')
           \<and> length h' = length h \<and> (\<forall>q. q \<noteq> r \<longrightarrow> h' ! q = h ! q)
           \<and> getProp (h' ! r) ''model'' = Num 0x89
           \<and> map_of (h' ! r) ''companyIdentifier'' = map_of (h ! r) ''companyIdentifier''
           \<and> map_of (h' ! r) ''type'' = map_of (h ! r) ''type''
           \<and> map_of (h' ! r) ''typeLabel'' = map_of (h ! r) ''typeLabel''))"
proof (intro conjI impI)
  assume long: "14 \<le> length buffer" and "buffer ! 1 = Nav"
  then have nav: "buffer ! 1 = 0x89" by (simp add: Nav_def)
  define ob where "ob = [(''type'', Num (real (ManufacturerSpecificData E))),
             (''typeLabel'', ManufacturerSpecificData_label E),
             (''companyIdentifier'', Num (real (unat (buffer ! 0) + 256 * unat (buffer ! 1))))]"
  define k where "k = snd (Nav_decoder buffer (length h) (h @ [ob]))"
  note fr = Nav_decoder_frame [OF long, where msd = "length h" and h = "h @ [ob]", folded k_def]
  have dec: "decodeMsd E buffer None h = (Inr (length h), k)"
    unfolding k_def ob_def by (rule decodeMsd_long_new [OF long nav])
  have len: "length k = Suc (length h)" by (simp add: fr(1))
  have old: "take (length h) k = h"
    by (rule nth_equalityI) (simp_all add: len fr(2) nth_append)
  have keep: "map_of (k ! length h) x = map_of ob x"
    if "x \<notin> {''model'', ''modelLabel'', ''position'', ''magneticField'', ''rtto'', ''alarms''}" for x
    using fr(3) [OF _ that] by simp
  have "getProp (k ! length h) ''companyIdentifier'' =
          Num (real (unat (buffer ! 0) + 256 * unat (buffer ! 1)))"
    and "getProp (k ! length h) ''type'' = Num (real (ManufacturerSpecificData E))"
    and "getProp (k ! length h) ''typeLabel'' = ManufacturerSpecificData_label E"
    by (simp_all add: getProp_def keep) (simp_all add: ob_def)
  with dec len old
  show "\<exists>h'. decodeMsd E buffer None h = (Inr (length h), h')
      \<and> length h' = Suc (length h) \<and> take (length h) h' = h
      \<and> getProp (h' ! length h) ''companyIdentifier'' =
          Num (real (unat (buffer ! 0) + 256 * unat (buffer ! 1)))
      \<and> getProp (h' ! length h) ''type'' = Num (real (ManufacturerSpecificData E))
      \<and> getProp (h' ! length h) ''typeLabel'' = ManufacturerSpecificData_label E"
    by blast
  assume r: "r < length h"
  let ?k = "snd (Nav_decoder buffer r h)"
  note fe = Nav_decoder_frame [OF long, where msd = r and h = h]
  show "\<exists>h'. decodeMsd E buffer (Some r) h = (Inr r, h')
           \<and> length h' = length h \<and> (\<forall>q. q \<noteq> r \<longrightarrow> h' ! q = h ! q)
           \<and> getProp (h' ! r) ''model'' = Num 0x89
           \<and> map_of (h' ! r) ''companyIdentifier'' = map_of (h ! r) ''companyIdentifier''
           \<and> map_of (h' ! r) ''type'' = map_of (h ! r) ''type''
           \<and> map_of (h' ! r) ''typeLabel'' = map_of (h ! r) ''typeLabel''"
    by (intro exI [of _ ?k] conjI decodeMsd_long_existing [OF long nav] fe(1)
        Nav_decoder_fields(1) [OF long r] allI impI fe(2))
      (simp_all add: fe(3) [OF r])
qed

lemma decodeMsd_short_RangeError:
  assumes "buffer_index buffer 1 = Some Nav" and "length buffer < 14"
  shows "fst (decodeMsd E buffer msd h) = Inl RangeError"
proof -
  from assms(1) have reg: "buffer_index buffer 1 = Some 0x89" by (simp add: Nav_def)
  from assms(2) have short: "\<And>r k. fst (Nav_decoder buffer r k) = Inl RangeError"
    by (simp add: Nav_decoder_short)
  show ?thesis
    by (cases msd)
      (simp_all add: decodeMsd_Nav_new decodeMsd_Nav_existing reg seq_return_fst short)
qed

section \<open>Claims\<close>

text \<open>
  C10. A buffer of fewer than two bytes has no byte at index 1: \<open>decodeMsd\<close> throws the
  error of the unknown device model, whose message names \<open>undefined\<close>, and the store, and
  so any record the caller supplied, is exactly as it was.
\<close>

theorem decodeMsd_short_buffer:
  "length buffer < 2 \<Longrightarrow>
   decodeMsd E buffer msd h =
     (Inl (Error (''Cannot decode iNode MSD: '' @ [CHR 0x27] @ ''undefined'' @ [CHR 0x27]
                    @ '' is not a valid device model!'')), h)"
  by (simp add: decodeMsd_unregistered buffer_index_short msdDecoders_def
      unknown_model_message_def toString_def)

theorem decodeMsd_short_buffer_witness:
  "length [0x4C :: byte] < 2 \<and>
   decodeMsd bluetooth_EirDataType [0x4C] (Some 0) [[(''companyIdentifier'', Num 7)]] =
     (Inl (Error (''Cannot decode iNode MSD: '' @ [CHR 0x27] @ ''undefined'' @ [CHR 0x27]
                    @ '' is not a valid device model!'')),
      [[(''companyIdentifier'', Num 7)]])"
proof -
  have short: "length [0x4C :: byte] < 2" by simp
  from short decodeMsd_short_buffer [OF short] show ?thesis by simp
qed

text \<open>
  C3. When the byte at index 1 (or its absence) has no entry in \<open>msdDecoders\<close>,
  \<open>decodeMsd\<close> throws the \<open>Error\<close> whose message holds the text of that identifier and
  leaves the store alone; when it has an entry, \<open>decodeMsd\<close> throws no \<open>Error\<close> with a
  message at all. The text names the identifier: two identifiers with the same text
  are the same.
\<close>

theorem decodeMsd_UnknownDeviceModel:
  "(msdDecoders (buffer_index buffer 1) = None \<longrightarrow>
      decodeMsd E buffer msd h =
        (Inl (Error (''Cannot decode iNode MSD: '' @ [CHR 0x27]
                       @ toString (buffer_index buffer 1) @ [CHR 0x27]
                       @ '' is not a valid device model!'')), h))
   \<and> (msdDecoders (buffer_index buffer 1) \<noteq> None \<longrightarrow>
        (\<forall>s. fst (decodeMsd E buffer msd h) \<noteq> Inl (Error s)))
   \<and> (\<forall>v w. toString v = toString w \<longrightarrow> v = w)"
  by (auto simp: decodeMsd_unregistered unknown_model_message_def
      decodeMsd_registered_no_Error dest: toString_inj)

theorem decodeMsd_UnknownDeviceModel_witness:
  "msdDecoders (buffer_index [0x4C, 0xFF] 1) = None
   \<and> decodeMsd bluetooth_EirDataType [0x4C, 0xFF] None [] =
        (Inl (Error (''Cannot decode iNode MSD: '' @ [CHR 0x27] @ ''255'' @ [CHR 0x27]
                       @ '' is not a valid device model!'')), [])
   \<and> msdDecoders (buffer_index [0x4C, 0x89] 1) \<noteq> None
   \<and> fst (decodeMsd bluetooth_EirDataType [0x4C, 0x89] None []) \<noteq> Inl (Error ''x'')
   \<and> toString (Some 0x89) \<noteq> toString (Some 0x13)"
proof -
  have a: "msdDecoders (buffer_index [0x4C, 0xFF] 1) = None"
    by (simp add: msdDecoders_def buffer_index_def Nav_def)
  have b: "msdDecoders (buffer_index [0x4C, 0x89] 1) \<noteq> None"
    by (simp add: msdDecoders_def buffer_index_def Nav_def)
  have s: "toString (buffer_index [0x4C, 0xFF] 1) = ''255''"
    by (simp add: toString_def buffer_index_def decimal.simps)
  note t = decodeMsd_UnknownDeviceModel [where E = bluetooth_EirDataType and msd = None
      and h = "[]"]
  have "toString (Some 0x89) = toString (Some 0x13) \<longrightarrow> Some (0x89 :: byte) = Some 0x13"
    using t [THEN conjunct2, THEN conjunct2] by blast
  then have n: "toString (Some 0x89) \<noteq> toString (Some 0x13)" by simp
  from a b s n t [where buffer = "[0x4C, 0xFF]"] t [where buffer = "[0x4C, 0x89]"]
  show ?thesis by simp
qed

text \<open>
  C5. With the extended offset absent (\<open>-1\<close>), \<open>decodeAlarms\<close> returns normally and the
  \<open>alarms\<close> object of the record has the one key \<open>lowBattery\<close>; the same holds for the
  record whenever the Nav pipeline returns normally.
\<close>

theorem decodeAlarms_extended_absent:
  "msd < length h \<Longrightarrow>
   (\<exists>h' al. decodeAlarms buffer batteryI (- 1) msd h = (Inr (), h')
       \<and> getProp (h' ! msd) ''alarms'' = Obj al \<and> keys al = [''lowBattery''])
   \<and> (\<forall>h'. Nav_decoder buffer msd h = (Inr (), h') \<longrightarrow>
         (\<exists>al. getProp (h' ! msd) ''alarms'' = Obj al \<and> keys al = [''lowBattery'']))"
proof (intro conjI allI impI)
  assume "msd < length h"
  then show "\<exists>h' al. decodeAlarms buffer batteryI (- 1) msd h = (Inr (), h')
       \<and> getProp (h' ! msd) ''alarms'' = Obj al \<and> keys al = [''lowBattery'']"
    by (simp add: decodeAlarms_absent setProp_nth_same getProp_update keys_def)
next
  fix h'
  assume valid: "msd < length h" and ret: "Nav_decoder buffer msd h = (Inr (), h')"
  have long: "14 \<le> length buffer"
  proof (rule ccontr)
    assume "\<not> 14 \<le> length buffer"
    then have "fst (Nav_decoder buffer msd h) = Inl RangeError"
      by (simp add: Nav_decoder_short)
    with ret show False by simp
  qed
  from ret have "h' = snd (Nav_decoder buffer msd h)" by simp
  with valid show "\<exists>al. getProp (h' ! msd) ''alarms'' = Obj al \<and> keys al = [''lowBattery'']"
    by (simp add: Nav_decoder_long [OF long] setProp_nth_same getProp_update keys_def)
qed

theorem decodeAlarms_extended_absent_witness:
  "0 < length [[] :: obj]
   \<and> (\<exists>h' al. decodeAlarms [0x04] 0 (- 1) 0 [[]] = (Inr (), h')
         \<and> getProp (h' ! 0) ''alarms'' = Obj al \<and> keys al = [''lowBattery''])
   \<and> Nav_decoder [0x4C, 0x89, 1, 0, 0xF8, 0xFF, 0, 0, 0x10, 0, 0, 0, 0, 0] 0 [[]] =
       (Inr (),
        [[(''model'', Num 137), (''modelLabel'', Str ''iNode Nav''),
          (''position'', Obj [(''x'', Num (1 / 16000)), (''y'', Num (- 8 / 16000)), (''z'', Num 0)]),
          (''magneticField'', Obj [(''x'', Num (16 / 10000)), (''y'', Num 0), (''z'', Num 0)]),
          (''rtto'', Boolean False),
          (''alarms'', Obj [(''lowBattery'', Boolean True)])]])
   \<and> (\<exists>al. getProp ([[(''model'', Num 137), (''modelLabel'', Str ''iNode Nav''),
          (''position'', Obj [(''x'', Num (1 / 16000)), (''y'', Num (- 8 / 16000)), (''z'', Num 0)]),
          (''magneticField'', Obj [(''x'', Num (16 / 10000)), (''y'', Num 0), (''z'', Num 0)]),
          (''rtto'', Boolean False),
          (''alarms'', Obj [(''lowBattery'', Boolean True)])]] ! 0) ''alarms'' = Obj al
         \<and> keys al = [''lowBattery''])"
proof -
  have valid: "0 < length [[] :: obj]" by simp
  have run: "Nav_decoder [0x4C, 0x89, 1, 0, 0xF8, 0xFF, 0, 0, 0x10, 0, 0, 0, 0, 0] 0 [[]] =
       (Inr (),
        [[(''model'', Num 137), (''modelLabel'', Str ''iNode Nav''),
          (''position'', Obj [(''x'', Num (1 / 16000)), (''y'', Num (- 8 / 16000)), (''z'', Num 0)]),
          (''magneticField'', Obj [(''x'', Num (16 / 10000)), (''y'', Num 0), (''z'', Num 0)]),
          (''rtto'', Boolean False),
          (''alarms'', Obj [(''lowBattery'', Boolean True)])]])"
    by (simp add: Nav_decoder_long setProp_def alarms_battery_def buffer_index_def ToInt32_def
        word_cat_eq)
  note t = decodeAlarms_extended_absent [OF valid]
  from valid run t [THEN conjunct1, of "[0x04]" 0]
    t [THEN conjunct2, rule_format, OF run]
  show ?thesis by simp
qed

text \<open>
  C1, as stated, at the battery byte \<open>0x02\<close>: bit \<open>0x02\<close> is set and \<open>lowBattery\<close> is
  false. The shift by 13 moves bit \<open>0x04\<close> of the byte to \<open>0x8000\<close>, and bit \<open>0x02\<close> to
  \<open>0x4000\<close>, which the mask drops.
\<close>

theorem decodeAlarms_lowBattery_counterexample:
  "decodeAlarms [0x02] 0 (- 1) 0 [[]] =
     (Inr (), [[(''alarms'', Obj [(''lowBattery'', Boolean False)])]])
   \<and> (0x02 :: byte) AND 0x02 \<noteq> 0"
  by (simp add: decodeAlarms_def alarms_battery_def alarms_extended_def alarms_mask_def
      setProp_def buffer_index_def ToInt32_def)

text \<open>
  C1, amended. For every byte \<open>b\<close> at a present battery offset, the battery part of the
  mask is \<open>0x8000\<close> when bit \<open>0x04\<close> of \<open>b\<close> is set and 0 otherwise, so no other bit of
  \<open>b\<close> reaches the mask. With the extended offset absent \<open>lowBattery\<close> is true exactly
  when bit \<open>0x04\<close> of \<open>b\<close> is set; with an extended word present, exactly when that bit
  or bit \<open>0x8000\<close> of the extended word (bit \<open>0x80\<close> of its high byte) is set.
\<close>

theorem decodeAlarms_lowBattery:
  "0 \<le> batteryI \<Longrightarrow> batteryI < int (length buffer) \<Longrightarrow> msd < length h \<Longrightarrow>
   alarms_battery buffer batteryI =
     (if buffer ! nat batteryI AND 0x04 \<noteq> 0 then 0x8000 else 0)
   \<and> (\<exists>h'. decodeAlarms buffer batteryI (- 1) msd h = (Inr (), h')
         \<and> getProp (h' ! msd) ''alarms'' =
             Obj [(''lowBattery'', Boolean (buffer ! nat batteryI AND 0x04 \<noteq> 0))])
   \<and> (0 \<le> extendedI \<and> extendedI + 2 \<le> int (length buffer) \<longrightarrow>
        (\<exists>h' al. decodeAlarms buffer batteryI extendedI msd h = (Inr (), h')
           \<and> getProp (h' ! msd) ''alarms'' = Obj al
           \<and> getProp al ''lowBattery'' =
               Boolean (buffer ! nat batteryI AND 0x04 \<noteq> 0
                        \<or> buffer ! (nat extendedI + 1) AND 0x80 \<noteq> 0)))"
proof (intro conjI impI)
  assume b: "0 \<le> batteryI" "batteryI < int (length buffer)" and valid: "msd < length h"
  from b show bat: "alarms_battery buffer batteryI =
      (if buffer ! nat batteryI AND 0x04 \<noteq> 0 then 0x8000 else 0)"
    by (rule alarms_battery_present)
  from valid show "\<exists>h'. decodeAlarms buffer batteryI (- 1) msd h = (Inr (), h')
         \<and> getProp (h' ! msd) ''alarms'' =
             Obj [(''lowBattery'', Boolean (buffer ! nat batteryI AND 0x04 \<noteq> 0))]"
    by (simp add: decodeAlarms_absent bat setProp_nth_same getProp_update)
  assume e: "0 \<le> extendedI \<and> extendedI + 2 \<le> int (length buffer)"
  with valid show "\<exists>h' al. decodeAlarms buffer batteryI extendedI msd h = (Inr (), h')
           \<and> getProp (h' ! msd) ''alarms'' = Obj al
           \<and> getProp al ''lowBattery'' =
               Boolean (buffer ! nat batteryI AND 0x04 \<noteq> 0
                        \<or> buffer ! (nat extendedI + 1) AND 0x80 \<noteq> 0)"
    by (auto simp: decodeAlarms_present bat setProp_nth_same getProp_update
        Object_assign_lowBattery)
qed

theorem decodeAlarms_lowBattery_witness:
  "(0 :: int) \<le> 0 \<and> 0 < int (length [0x04 :: byte, 0xFF, 0x7F]) \<and> 0 < length [[] :: obj]
   \<and> alarms_battery [0x04, 0xFF, 0x7F] 0 = 0x8000
   \<and> (\<exists>h'. decodeAlarms [0x04, 0xFF, 0x7F] 0 (- 1) 0 [[]] = (Inr (), h')
         \<and> getProp (h' ! 0) ''alarms'' = Obj [(''lowBattery'', Boolean True)])
   \<and> (0 :: int) \<le> 1 \<and> (1 :: int) + 2 \<le> int (length [0x04 :: byte, 0xFF, 0x7F])
   \<and> (\<exists>h' al. decodeAlarms [0x04, 0xFF, 0x7F] 0 1 0 [[]] = (Inr (), h')
         \<and> getProp (h' ! 0) ''alarms'' = Obj al
         \<and> getProp al ''lowBattery'' = Boolean True)"
proof -
  have b: "(0 :: int) \<le> 0" "0 < int (length [0x04 :: byte, 0xFF, 0x7F])" by simp_all
  have valid: "0 < length [[] :: obj]" by simp
  from decodeAlarms_lowBattery [OF b valid, of 1] show ?thesis by simp
qed

text \<open>
  C2, as stated: in the 13-byte buffer of the specification the byte at index 1 is
  \<open>0x00\<close> (\<open>0x89\<close> is at index 2), so \<open>decodeMsd\<close> throws and yields no record.
\<close>

theorem decodeMsd_spec_example_counterexample:
  "decodeMsd bluetooth_EirDataType
     [0x4C, 0x00, 0x89, 0x01, 0x00, 0xF8, 0xFF, 0x10, 0x00, 0x00, 0x00, 0x00, 0x00] None [] =
     (Inl (Error (''Cannot decode iNode MSD: '' @ [CHR 0x27] @ ''0'' @ [CHR 0x27]
                    @ '' is not a valid device model!'')), [])"
  by (simp add: decodeMsd_def buffer_index_def msdDecoders_def Nav_def
      unknown_model_message_def toString_def decimal.simps)

text \<open>
  C2, amended. Decoding that buffer with no record fails with the error of the unknown
  device model naming the identifier 0, and the store is unchanged. The 14-byte buffer
  with the model byte at index 1 and the same readings decodes to company identifier
  \<open>0x894C\<close>, model \<open>0x89\<close>, position \<open>(0.0000625, -0.0005, 0)\<close>, magnetic field
  \<open>(0.0016, 0, 0)\<close>, \<open>rtto\<close> false and, bit \<open>0x04\<close> of \<open>0x4C\<close> being set, \<open>lowBattery\<close>
  true.
\<close>

theorem decodeMsd_spec_example:
  "decodeMsd E [0x4C, 0x00, 0x89, 0x01, 0x00, 0xF8, 0xFF, 0x10, 0x00, 0x00, 0x00, 0x00, 0x00] None h =
     (Inl (Error (''Cannot decode iNode MSD: '' @ [CHR 0x27] @ ''0'' @ [CHR 0x27]
                    @ '' is not a valid device model!'')), h)
   \<and> decodeMsd E [0x4C, 0x89, 0x01, 0x00, 0xF8, 0xFF, 0x00, 0x00, 0x10, 0x00, 0x00, 0x00, 0x00, 0x00]
         None [] =
       (Inr 0,
        [[(''type'', Num (real (ManufacturerSpecificData E))),
          (''typeLabel'', ManufacturerSpecificData_label E),
          (''companyIdentifier'', Num 0x894C),
          (''model'', Num 0x89),
          (''modelLabel'', Str ''iNode Nav''),
          (''position'', Obj [(''x'', Num 0.0000625), (''y'', Num (- 0.0005)), (''z'', Num 0)]),
          (''magneticField'', Obj [(''x'', Num 0.0016), (''y'', Num 0), (''z'', Num 0)]),
          (''rtto'', Boolean False),
          (''alarms'', Obj [(''lowBattery'', Boolean True)])]])"
proof
  show "decodeMsd E [0x4C, 0x00, 0x89, 0x01, 0x00, 0xF8, 0xFF, 0x10, 0x00, 0x00, 0x00, 0x00, 0x00] None h =
     (Inl (Error (''Cannot decode iNode MSD: '' @ [CHR 0x27] @ ''0'' @ [CHR 0x27]
                    @ '' is not a valid device model!'')), h)"
    by (simp add: decodeMsd_def buffer_index_def msdDecoders_def Nav_def
        unknown_model_message_def toString_def decimal.simps)
  have b: "buffer_index [0x4C, 0x89, 0x01, 0x00, 0xF8, 0xFF, 0x00, 0x00, 0x10, 0x00, 0x00, 0x00, 0x00, 0x00] 1
      = Some 0x89"
    by (simp add: buffer_index_def)
  show "decodeMsd E [0x4C, 0x89, 0x01, 0x00, 0xF8, 0xFF, 0x00, 0x00, 0x10, 0x00, 0x00, 0x00, 0x00, 0x00]
         None [] =
       (Inr 0,
        [[(''type'', Num (real (ManufacturerSpecificData E))),
          (''typeLabel'', ManufacturerSpecificData_label E),
          (''companyIdentifier'', Num 0x894C),
          (''model'', Num 0x89),
          (''modelLabel'', Str ''iNode Nav''),
          (''position'', Obj [(''x'', Num 0.0000625), (''y'', Num (- 0.0005)), (''z'', Num 0)]),
          (''magneticField'', Obj [(''x'', Num 0.0016), (''y'', Num 0), (''z'', Num 0)]),
          (''rtto'', Boolean False),
          (''alarms'', Obj [(''lowBattery'', Boolean True)])]])"
    by (simp add: decodeMsd_Nav_new [OF b] seq_def Nav_decoder_long setProp_def
        alarms_battery_def buffer_index_def ToInt32_def word_cat_eq)
qed

text \<open>
  C6. For every buffer of at least 14 bytes whose byte 1 is the Nav model, with or
  without a record of the caller, \<open>decodeMsd\<close> returns a record whose \<open>position\<close> holds
  the signed 16-bit little-endian integers at offsets 2, 4 and 6, each divided by 16000,
  and whose \<open>magneticField\<close> holds those at offsets 8, 10 and 12, each divided by 10000:
  one division and nothing else.
\<close>

theorem Nav_fixed_point_fields:
  "14 \<le> length buffer \<Longrightarrow> buffer ! 1 = Nav \<Longrightarrow> allocated msd h \<Longrightarrow>
   \<exists>r h'. decodeMsd E buffer msd h = (Inr r, h')
     \<and> getProp (h' ! r) ''position'' =
          Obj [(''x'', Num (real_of_int (signed16_le buffer 2) / 16000)),
               (''y'', Num (real_of_int (signed16_le buffer 4) / 16000)),
               (''z'', Num (real_of_int (signed16_le buffer 6) / 16000))]
     \<and> getProp (h' ! r) ''magneticField'' =
          Obj [(''x'', Num (real_of_int (signed16_le buffer 8) / 10000)),
               (''y'', Num (real_of_int (signed16_le buffer 10) / 10000)),
               (''z'', Num (real_of_int (signed16_le buffer 12) / 10000))]"
proof -
  assume long: "14 \<le> length buffer" and nav: "buffer ! 1 = Nav" and al: "allocated msd h"
  from nav have "buffer ! 1 = 0x89" by (simp add: Nav_def)
  from decodeMsd_long [OF long this al, of E] obtain r h0
    where "decodeMsd E buffer msd h = (Inr r, snd (Nav_decoder buffer r h0))" "r < length h0"
    by blast
  with Nav_decoder_fields(3,4) [OF long, of r h0] show ?thesis by auto
qed

theorem Nav_fixed_point_fields_witness:
  "14 \<le> length [0x4C, 0x89, 0x01, 0x00, 0xF8, 0xFF, 0x00, 0x80, 0x10, 0x00, 0xFF, 0x7F, 0xFF, 0xFF :: byte]
   \<and> [0x4C, 0x89, 0x01, 0x00, 0xF8, 0xFF, 0x00, 0x80, 0x10, 0x00, 0xFF, 0x7F, 0xFF, 0xFF] ! 1 = Nav
   \<and> allocated None []
   \<and> (\<exists>r h'. decodeMsd bluetooth_EirDataType
          [0x4C, 0x89, 0x01, 0x00, 0xF8, 0xFF, 0x00, 0x80, 0x10, 0x00, 0xFF, 0x7F, 0xFF, 0xFF]
          None [] = (Inr r, h')
        \<and> getProp (h' ! r) ''position'' =
             Obj [(''x'', Num (1 / 16000)), (''y'', Num (- 8 / 16000)), (''z'', Num (- 32768 / 16000))]
        \<and> getProp (h' ! r) ''magneticField'' =
             Obj [(''x'', Num (16 / 10000)), (''y'', Num (32767 / 10000)), (''z'', Num (- 1 / 10000))])"
proof -
  have l: "14 \<le> length [0x4C, 0x89, 0x01, 0x00, 0xF8, 0xFF, 0x00, 0x80, 0x10, 0x00, 0xFF, 0x7F, 0xFF, 0xFF :: byte]"
    by simp
  have n: "[0x4C, 0x89, 0x01, 0x00, 0xF8, 0xFF, 0x00, 0x80, 0x10, 0x00, 0xFF, 0x7F, 0xFF, 0xFF] ! 1 = Nav"
    by (simp add: Nav_def)
  have a: "allocated None []" by (simp add: allocated_def)
  from l n a Nav_fixed_point_fields [OF l n a, of bluetooth_EirDataType]
  show ?thesis by (simp add: signed16_le_def)
qed

text \<open>
  C8. Two buffers of at least 14 bytes that agree on bytes 0 to 13 are decoded alike:
  each field decoder of the Nav pipeline is the same function on both, \<open>decodeMsd\<close> gives
  the same outcome from the same record and store, and from any two records and stores
  the records returned have the same \<open>position\<close>, \<open>magneticField\<close>, \<open>rtto\<close> and \<open>alarms\<close>.
\<close>

theorem Nav_reads_first_14_bytes:
  "14 \<le> length b1 \<Longrightarrow> 14 \<le> length b2 \<Longrightarrow> take 14 b1 = take 14 b2 \<Longrightarrow>
   decodeAccelerometer b1 = decodeAccelerometer b2
   \<and> decodeMagneticField b1 = decodeMagneticField b2
   \<and> decodeRtto b1 0 = decodeRtto b2 0
   \<and> decodeAlarms b1 0 (- 1) = decodeAlarms b2 0 (- 1)
   \<and> decodeMsd E b1 msd h = decodeMsd E b2 msd h
   \<and> (allocated m1 h1 \<and> allocated m2 h2
        \<and> decodeMsd E1 b1 m1 h1 = (Inr r1, h1') \<and> decodeMsd E2 b2 m2 h2 = (Inr r2, h2') \<longrightarrow>
          getProp (h1' ! r1) ''position'' = getProp (h2' ! r2) ''position''
        \<and> getProp (h1' ! r1) ''magneticField'' = getProp (h2' ! r2) ''magneticField''
        \<and> getProp (h1' ! r1) ''rtto'' = getProp (h2' ! r2) ''rtto''
        \<and> getProp (h1' ! r1) ''alarms'' = getProp (h2' ! r2) ''alarms'')"
proof (intro conjI impI)
  assume l: "14 \<le> length b1" "14 \<le> length b2" and t: "take 14 b1 = take 14 b2"
  show "decodeAccelerometer b1 = decodeAccelerometer b2"
    and "decodeMagneticField b1 = decodeMagneticField b2"
    and "decodeRtto b1 0 = decodeRtto b2 0"
    and "decodeAlarms b1 0 (- 1) = decodeAlarms b2 0 (- 1)"
    by (rule decoders_agree [OF l t])+
  show "decodeMsd E b1 msd h = decodeMsd E b2 msd h"
    by (rule decodeMsd_agree [OF l t])
  assume "allocated m1 h1 \<and> allocated m2 h2
        \<and> decodeMsd E1 b1 m1 h1 = (Inr r1, h1') \<and> decodeMsd E2 b2 m2 h2 = (Inr r2, h2')"
  then have a: "allocated m1 h1" "allocated m2 h2"
    and d: "decodeMsd E1 b1 m1 h1 = (Inr r1, h1')" "decodeMsd E2 b2 m2 h2 = (Inr r2, h2')"
    by simp_all
  from decodeMsd_result [OF d(1) a(1)] obtain k1
    where k1: "h1' = snd (Nav_decoder b1 r1 k1)" "r1 < length k1" by blast
  from decodeMsd_result [OF d(2) a(2)] obtain k2
    where k2: "h2' = snd (Nav_decoder b2 r2 k2)" "r2 < length k2" by blast
  note f1 = Nav_decoder_fields [OF l(1) k1(2), folded k1(1)]
  note f2 = Nav_decoder_fields [OF l(2) k2(2), folded k2(1)]
  have b0: "b1 ! 0 = b2 ! 0" using take_14_nth [OF t, of 0] by simp
  show "getProp (h1' ! r1) ''position'' = getProp (h2' ! r2) ''position''"
    by (simp add: f1(3) f2(3) signed16_le_agree [OF t])
  show "getProp (h1' ! r1) ''magneticField'' = getProp (h2' ! r2) ''magneticField''"
    by (simp add: f1(4) f2(4) signed16_le_agree [OF t])
  show "getProp (h1' ! r1) ''rtto'' = getProp (h2' ! r2) ''rtto''"
    by (simp add: f1(5) f2(5) b0)
  show "getProp (h1' ! r1) ''alarms'' = getProp (h2' ! r2) ''alarms''"
    by (simp add: f1(6) f2(6) b0)
qed

theorem Nav_reads_first_14_bytes_witness:
  "14 \<le> length (Nav_example @ [0x00]) \<and> 14 \<le> length (Nav_example @ [0xFF, 0x01])
   \<and> take 14 (Nav_example @ [0x00]) = take 14 (Nav_example @ [0xFF, 0x01])
   \<and> allocated None [] \<and> allocated (Some 0) [[]]
   \<and> decodeMsd bluetooth_EirDataType (Nav_example @ [0x00]) None [] =
       (Inr 0, snd (decodeMsd bluetooth_EirDataType (Nav_example @ [0x00]) None []))
   \<and> decodeMsd bluetooth_EirDataType (Nav_example @ [0xFF, 0x01]) (Some 0) [[]] =
       (Inr 0, snd (decodeMsd bluetooth_EirDataType (Nav_example @ [0xFF, 0x01]) (Some 0) [[]]))
   \<and> decodeAccelerometer (Nav_example @ [0x00]) = decodeAccelerometer (Nav_example @ [0xFF, 0x01])
   \<and> decodeMagneticField (Nav_example @ [0x00]) = decodeMagneticField (Nav_example @ [0xFF, 0x01])
   \<and> decodeRtto (Nav_example @ [0x00]) 0 = decodeRtto (Nav_example @ [0xFF, 0x01]) 0
   \<and> decodeAlarms (Nav_example @ [0x00]) 0 (- 1) = decodeAlarms (Nav_example @ [0xFF, 0x01]) 0 (- 1)
   \<and> decodeMsd bluetooth_EirDataType (Nav_example @ [0x00]) None [] =
       decodeMsd bluetooth_EirDataType (Nav_example @ [0xFF, 0x01]) None []
   \<and> getProp (snd (decodeMsd bluetooth_EirDataType (Nav_example @ [0x00]) None []) ! 0) ''position'' =
       getProp (snd (decodeMsd bluetooth_EirDataType (Nav_example @ [0xFF, 0x01]) (Some 0) [[]]) ! 0)
         ''position''
   \<and> getProp (snd (decodeMsd bluetooth_EirDataType (Nav_example @ [0x00]) None []) ! 0)
         ''magneticField'' =
       getProp (snd (decodeMsd bluetooth_EirDataType (Nav_example @ [0xFF, 0x01]) (Some 0) [[]]) ! 0)
         ''magneticField''
   \<and> getProp (snd (decodeMsd bluetooth_EirDataType (Nav_example @ [0x00]) None []) ! 0) ''rtto'' =
       getProp (snd (decodeMsd bluetooth_EirDataType (Nav_example @ [0xFF, 0x01]) (Some 0) [[]]) ! 0)
         ''rtto''
   \<and> getProp (snd (decodeMsd bluetooth_EirDataType (Nav_example @ [0x00]) None []) ! 0) ''alarms'' =
       getProp (snd (decodeMsd bluetooth_EirDataType (Nav_example @ [0xFF, 0x01]) (Some 0) [[]]) ! 0)
         ''alarms''"
proof -
  have l: "14 \<le> length (Nav_example @ [0x00])" "14 \<le> length (Nav_example @ [0xFF, 0x01])"
    by (simp_all add: Nav_example_def)
  have t: "take 14 (Nav_example @ [0x00]) = take 14 (Nav_example @ [0xFF, 0x01])"
    by (simp add: Nav_example_def)
  have a: "allocated None []" "allocated (Some 0) [[]]"
    by (simp_all add: allocated_def)
  have n: "(Nav_example @ [0x00]) ! 1 = 0x89" "(Nav_example @ [0xFF, 0x01]) ! 1 = 0x89"
    by (simp_all add: Nav_example_def)
  have d1: "decodeMsd bluetooth_EirDataType (Nav_example @ [0x00]) None [] =
       (Inr 0, snd (decodeMsd bluetooth_EirDataType (Nav_example @ [0x00]) None []))"
    by (simp add: decodeMsd_long_new [OF l(1) n(1)])
  have d2: "decodeMsd bluetooth_EirDataType (Nav_example @ [0xFF, 0x01]) (Some 0) [[]] =
       (Inr 0, snd (decodeMsd bluetooth_EirDataType (Nav_example @ [0xFF, 0x01]) (Some 0) [[]]))"
    by (simp add: decodeMsd_long_existing [OF l(2) n(2)])
  note w = Nav_reads_first_14_bytes [OF l t, where E = bluetooth_EirDataType and msd = None
      and h = "[]" and ?m1.0 = None and ?h1.0 = "[]" and ?m2.0 = "Some 0" and ?h2.0 = "[[]]"
      and ?E1.0 = bluetooth_EirDataType and ?E2.0 = bluetooth_EirDataType
      and ?r1.0 = 0 and ?r2.0 = 0
      and h1' = "snd (decodeMsd bluetooth_EirDataType (Nav_example @ [0x00]) None [])"
      and h2' = "snd (decodeMsd bluetooth_EirDataType (Nav_example @ [0xFF, 0x01]) (Some 0) [[]])"]
  from l t a d1 d2 w show ?thesis by blast
qed

text \<open>
  C9. Whenever \<open>decodeMsd\<close> returns a record, with or without a record of the caller,
  that record has \<open>model = 0x89\<close> and \<open>modelLabel = "iNode Nav"\<close>; it does return one for
  every Nav buffer of at least 14 bytes; and none of the four field decoders, whatever
  the buffer and the offsets, changes \<open>model\<close> or \<open>modelLabel\<close> of the record it writes to.
\<close>

theorem Nav_identity:
  "allocated msd h \<Longrightarrow>
   (decodeMsd E buffer msd h = (Inr r, h') \<longrightarrow>
      getProp (h' ! r) ''model'' = Num 0x89 \<and> getProp (h' ! r) ''modelLabel'' = Str ''iNode Nav'')
   \<and> (14 \<le> length buffer \<and> buffer ! 1 = Nav \<longrightarrow>
        (\<exists>r h'. decodeMsd E buffer msd h = (Inr r, h')))
   \<and> (q < length h \<and> (k = ''model'' \<or> k = ''modelLabel'') \<longrightarrow>
        getProp (snd (decodeAccelerometer buffer q h) ! q) k = getProp (h ! q) k
      \<and> getProp (snd (decodeMagneticField buffer q h) ! q) k = getProp (h ! q) k
      \<and> getProp (snd (decodeRtto buffer i q h) ! q) k = getProp (h ! q) k
      \<and> getProp (snd (decodeAlarms buffer batteryI extendedI q h) ! q) k = getProp (h ! q) k)"
proof (intro conjI impI)
  assume al: "allocated msd h"
  {
    assume d: "decodeMsd E buffer msd h = (Inr r, h')"
    from decodeMsd_result [OF d al] obtain h0
      where h0: "h' = snd (Nav_decoder buffer r h0)" "r < length h0" "14 \<le> length buffer"
      by blast
    note f = Nav_decoder_fields(1,2) [OF h0(3) h0(2), folded h0(1)]
    show "getProp (h' ! r) ''model'' = Num 0x89" by (rule f(1))
    show "getProp (h' ! r) ''modelLabel'' = Str ''iNode Nav''" by (rule f(2))
  }
  {
    assume "14 \<le> length buffer \<and> buffer ! 1 = Nav"
    then have "14 \<le> length buffer" "buffer ! 1 = 0x89" by (simp_all add: Nav_def)
    from decodeMsd_long [OF this al, of E]
    show "\<exists>r h'. decodeMsd E buffer msd h = (Inr r, h')" by blast
  }
  {
    assume "q < length h \<and> (k = ''model'' \<or> k = ''modelLabel'')"
    then have q: "q < length h"
      and k: "k \<noteq> ''position''" "k \<noteq> ''magneticField''" "k \<noteq> ''rtto''" "k \<noteq> ''alarms''"
      by auto
    show "getProp (snd (decodeAccelerometer buffer q h) ! q) k = getProp (h ! q) k"
      by (rule decodeAccelerometer_frame [OF q k(1)])
    show "getProp (snd (decodeMagneticField buffer q h) ! q) k = getProp (h ! q) k"
      by (rule decodeMagneticField_frame [OF q k(2)])
    show "getProp (snd (decodeRtto buffer i q h) ! q) k = getProp (h ! q) k"
      by (rule decodeRtto_frame [OF q k(3)])
    show "getProp (snd (decodeAlarms buffer batteryI extendedI q h) ! q) k = getProp (h ! q) k"
      by (rule decodeAlarms_frame [OF q k(4)])
  }
qed

theorem Nav_identity_witness:
  "allocated (Some 0) [[(''model'', Num 1)]]
   \<and> decodeMsd bluetooth_EirDataType Nav_example (Some 0) [[(''model'', Num 1)]] =
       (Inr 0, snd (decodeMsd bluetooth_EirDataType Nav_example (Some 0) [[(''model'', Num 1)]]))
   \<and> getProp (snd (decodeMsd bluetooth_EirDataType Nav_example (Some 0) [[(''model'', Num 1)]]) ! 0)
         ''model'' = Num 0x89
   \<and> getProp (snd (decodeMsd bluetooth_EirDataType Nav_example (Some 0) [[(''model'', Num 1)]]) ! 0)
         ''modelLabel'' = Str ''iNode Nav''
   \<and> 14 \<le> length Nav_example \<and> Nav_example ! 1 = Nav
   \<and> (\<exists>r h'. decodeMsd bluetooth_EirDataType Nav_example (Some 0) [[(''model'', Num 1)]] = (Inr r, h'))
   \<and> 0 < length [[(''model'', Num 1)]]
   \<and> getProp (snd (decodeAccelerometer Nav_example 0 [[(''model'', Num 1)]]) ! 0) ''model'' = Num 1
   \<and> getProp (snd (decodeMagneticField Nav_example 0 [[(''model'', Num 1)]]) ! 0) ''model'' = Num 1
   \<and> getProp (snd (decodeRtto Nav_example 0 0 [[(''model'', Num 1)]]) ! 0) ''model'' = Num 1
   \<and> getProp (snd (decodeAlarms Nav_example 0 2 0 [[(''model'', Num 1)]]) ! 0) ''model'' = Num 1"
proof -
  have a: "allocated (Some 0) [[(''model'', Num 1)]]" by (simp add: allocated_def)
  have l: "14 \<le> length Nav_example" and n: "Nav_example ! 1 = Nav" and n': "Nav_example ! 1 = 0x89"
    by (simp_all add: Nav_example_def Nav_def)
  have d: "decodeMsd bluetooth_EirDataType Nav_example (Some 0) [[(''model'', Num 1)]] =
       (Inr 0, snd (decodeMsd bluetooth_EirDataType Nav_example (Some 0) [[(''model'', Num 1)]]))"
    by (simp add: decodeMsd_long_existing [OF l n'])
  have g: "getProp ([[(''model'', Num 1)]] ! 0) ''model'' = Num 1" by (simp add: getProp_def)
  note w = Nav_identity [OF a, where E = bluetooth_EirDataType and buffer = Nav_example
      and r = 0 and q = 0 and k = "''model''" and i = 0 and batteryI = 0 and extendedI = 2
      and h' = "snd (decodeMsd bluetooth_EirDataType Nav_example (Some 0) [[(''model'', Num 1)]])"]
  from a l n d g w show ?thesis by simp
qed

text \<open>
  C7, as stated, at the two-byte buffer \<open>[0x4C, 0x89]\<close>: the model byte is registered, the
  record is created, and the first read of the accelerometer throws \<open>RangeError\<close>; no
  record is returned.
\<close>

theorem decodeMsd_record_counterexample:
  "decodeMsd bluetooth_EirDataType [0x4C, 0x89] None [] =
     (Inl RangeError,
      [[(''type'', Num 0xFF), (''typeLabel'', Str ''ManufacturerSpecificData''),
        (''companyIdentifier'', Num 0x894C),
        (''model'', Num 0x89), (''modelLabel'', Str ''iNode Nav'')]])"
  by (simp add: decodeMsd_def buffer_index_def msdDecoders_def readUInt16LE_def word_cat_eq
      bluetooth_EirDataType_def Nav_decoder_def seq_def setProp_def decodeAccelerometer_def
      readInt16LE_def Nav_def)

text \<open>
  C7, amended: for every buffer whose byte 1 is the registered model, by its length.
  With at least 14 bytes: called without a record, \<open>decodeMsd\<close> returns the address of a
  new object (the store grows by one and its old objects are as they were) whose
  \<open>companyIdentifier\<close> is the little-endian 16-bit value of bytes 0 and 1 and whose
  \<open>type\<close> and \<open>typeLabel\<close> are the host's tag and label of the manufacturer specific
  data; called with a record, it returns that same address, the record now carries the
  model, every other object is unchanged, and \<open>companyIdentifier\<close>, \<open>type\<close> and
  \<open>typeLabel\<close> of the record are as the caller left them, present or absent. With fewer
  than 14 bytes, with or without a record, \<open>decodeMsd\<close> throws \<open>RangeError\<close> and returns
  no record.
\<close>

theorem decodeMsd_record:
  "buffer_index buffer 1 = Some Nav \<Longrightarrow>
   (14 \<le> length buffer \<longrightarrow>
      (\<exists>h'. decodeMsd E buffer None h = (Inr (length h), h')
         \<and> length h' = Suc (length h) \<and> take (length h) h' = h
         \<and> getProp (h' ! length h) ''companyIdentifier'' =
             Num (real (unat (buffer ! 0) + 256 * unat (buffer ! 1)))
         \<and> getProp (h' ! length h) ''type'' = Num (real (ManufacturerSpecificData E))
         \<and> getProp (h' ! length h) ''typeLabel'' = ManufacturerSpecificData_label E)
      \<and> (r < length h \<longrightarrow>
           (\<exists>h'. decodeMsd E buffer (Some r) h = (Inr r, h')
              \<and> length h' = length h \<and> (\<forall>q. q \<noteq> r \<longrightarrow> h' ! q = h ! q)
              \<and> getProp (h' ! r) ''model'' = Num 0x89
              \<and> map_of (h' ! r) ''companyIdentifier'' = map_of (h ! r) ''companyIdentifier''
              \<and> map_of (h' ! r) ''type'' = map_of (h ! r) ''type''
              \<and> map_of (h' ! r) ''typeLabel'' = map_of (h ! r) ''typeLabel'')))
   \<and> (length buffer < 14 \<longrightarrow> fst (decodeMsd E buffer msd h) = Inl RangeError)"
proof (intro conjI impI)
  assume reg: "buffer_index buffer 1 = Some Nav"
  {
    assume long: "14 \<le> length buffer"
    with reg have nav: "buffer ! 1 = Nav" by (simp add: buffer_index_1_long)
    from decodeMsd_long_record [OF long nav, of E h r]
    show "\<exists>h'. decodeMsd E buffer None h = (Inr (length h), h')
         \<and> length h' = Suc (length h) \<and> take (length h) h' = h
         \<and> getProp (h' ! length h) ''companyIdentifier'' =
             Num (real (unat (buffer ! 0) + 256 * unat (buffer ! 1)))
         \<and> getProp (h' ! length h) ''type'' = Num (real (ManufacturerSpecificData E))
         \<and> getProp (h' ! length h) ''typeLabel'' = ManufacturerSpecificData_label E"
      by (rule conjunct1)
    assume r: "r < length h"
    from decodeMsd_long_record [OF long nav, of E h r] r
    show "\<exists>h'. decodeMsd E buffer (Some r) h = (Inr r, h')
              \<and> length h' = length h \<and> (\<forall>q. q \<noteq> r \<longrightarrow> h' ! q = h ! q)
              \<and> getProp (h' ! r) ''model'' = Num 0x89
              \<and> map_of (h' ! r) ''companyIdentifier'' = map_of (h ! r) ''companyIdentifier''
              \<and> map_of (h' ! r) ''type'' = map_of (h ! r) ''type''
              \<and> map_of (h' ! r) ''typeLabel'' = map_of (h ! r) ''typeLabel''"
      by blast
  }
  assume "length buffer < 14"
  with reg show "fst (decodeMsd E buffer msd h) = Inl RangeError"
    by (rule decodeMsd_short_RangeError)
qed

theorem decodeMsd_record_witness:
  "buffer_index Nav_example 1 = Some Nav \<and> 14 \<le> length Nav_example
   \<and> (\<exists>h'. decodeMsd bluetooth_EirDataType Nav_example None [] = (Inr 0, h')
         \<and> length h' = 1
         \<and> getProp (h' ! 0) ''companyIdentifier'' = Num 0x894C
         \<and> getProp (h' ! 0) ''type'' = Num 0xFF
         \<and> getProp (h' ! 0) ''typeLabel'' = Str ''ManufacturerSpecificData'')
   \<and> 0 < length [[(''companyIdentifier'', Num 7)]]
   \<and> (\<exists>h'. decodeMsd bluetooth_EirDataType Nav_example (Some 0) [[(''companyIdentifier'', Num 7)]] =
            (Inr 0, h')
         \<and> length h' = 1
         \<and> getProp (h' ! 0) ''model'' = Num 0x89
         \<and> map_of (h' ! 0) ''companyIdentifier'' = Some (Num 7)
         \<and> map_of (h' ! 0) ''type'' = None
         \<and> map_of (h' ! 0) ''typeLabel'' = None)
   \<and> buffer_index (take 13 Nav_example) 1 = Some Nav \<and> length (take 13 Nav_example) < 14
   \<and> fst (decodeMsd bluetooth_EirDataType (take 13 Nav_example) None []) = Inl RangeError
   \<and> fst (decodeMsd bluetooth_EirDataType (take 13 Nav_example) (Some 0)
             [[(''companyIdentifier'', Num 7)]]) = Inl RangeError"
proof -
  have g: "buffer_index Nav_example 1 = Some Nav" and l: "14 \<le> length Nav_example"
    by (simp_all add: Nav_example_def Nav_def buffer_index_def)
  have g13: "buffer_index (take 13 Nav_example) 1 = Some Nav"
    and l13: "length (take 13 Nav_example) < 14"
    by (simp_all add: Nav_example_def Nav_def buffer_index_def)
  have b: "unat (Nav_example ! 0) = 0x4C" "unat (Nav_example ! Suc 0) = 0x89"
    by (simp_all add: Nav_example_def)
  have e: "ManufacturerSpecificData bluetooth_EirDataType = 0xFF"
    "ManufacturerSpecificData_label bluetooth_EirDataType = Str ''ManufacturerSpecificData''"
    by (simp_all add: bluetooth_EirDataType_def)
  have r: "0 < length [[(''companyIdentifier'', Num 7)]]" by simp
  note w = decodeMsd_record [OF g, where E = bluetooth_EirDataType, THEN conjunct1, rule_format, OF l]
  note s = decodeMsd_record [OF g13, where E = bluetooth_EirDataType, THEN conjunct2, rule_format,
      OF l13]
  from w [where h = "[]" and r = 0, THEN conjunct1]
  have new: "\<exists>h'. decodeMsd bluetooth_EirDataType Nav_example None [] = (Inr 0, h')
         \<and> length h' = 1
         \<and> getProp (h' ! 0) ''companyIdentifier'' = Num 0x894C
         \<and> getProp (h' ! 0) ''type'' = Num 0xFF
         \<and> getProp (h' ! 0) ''typeLabel'' = Str ''ManufacturerSpecificData''"
    by (simp add: b e)
  from w [where h = "[[(''companyIdentifier'', Num 7)]]" and r = 0, THEN conjunct2] r
  have old: "\<exists>h'. decodeMsd bluetooth_EirDataType Nav_example (Some 0) [[(''companyIdentifier'', Num 7)]] =
            (Inr 0, h')
         \<and> length h' = 1
         \<and> getProp (h' ! 0) ''model'' = Num 0x89
         \<and> map_of (h' ! 0) ''companyIdentifier'' = Some (Num 7)
         \<and> map_of (h' ! 0) ''type'' = None
         \<and> map_of (h' ! 0) ''typeLabel'' = None"
    by auto
  from g l r new old g13 l13 s [where msd = None and h = "[]"]
    s [where msd = "Some 0" and h = "[[(''companyIdentifier'', Num 7)]]"]
  show ?thesis by blast
qed

text \<open>
  C4, as stated, at the two-byte buffer \<open>[0x4C, 0x89]\<close>: the decoder installed into an
  empty registry calls the Nav decoder, whose first read throws \<open>RangeError\<close>.
\<close>

theorem installed_decoder_counterexample:
  "registerManufacturerSpecificDataDecoder bluetooth_EirDataType empty_registry 0xFF =
     Some (installed_decoder None)
   \<and> installed_decoder None [0x4C, 0x89] 0 [[]] =
       (Inl RangeError, [[(''model'', Num 0x89), (''modelLabel'', Str ''iNode Nav'')]])"
  by (simp add: registerManufacturerSpecificDataDecoder_def bluetooth_EirDataType_def
      empty_registry_def installed_decoder_def buffer_index_def msdDecoders_def
      Nav_decoder_def seq_def setProp_def decodeAccelerometer_def readInt16LE_def Nav_def)

text \<open>
  C4, amended. \<open>registerManufacturerSpecificDataDecoder\<close> replaces the entry of the
  manufacturer specific data, and only that entry, by a decoder closed over the previous
  entry. That decoder does what the registered model's decoder does when byte 1 is a
  registered model; otherwise what the previous entry does when there was one; otherwise
  nothing, without an error. It throws no error of its own: an error it throws is the
  \<open>RangeError\<close> of the Nav decoder on a buffer shorter than 14 bytes, or the error of the
  previous entry; on a Nav buffer of at least 14 bytes it returns normally.
\<close>

theorem installed_decoder_dispatch:
  "registerManufacturerSpecificDataDecoder E reg (ManufacturerSpecificData E) =
     Some (installed_decoder (reg (ManufacturerSpecificData E)))
   \<and> (t \<noteq> ManufacturerSpecificData E \<longrightarrow>
        registerManufacturerSpecificDataDecoder E reg t = reg t)
   \<and> (msdDecoders (buffer_index buffer 1) = Some d \<longrightarrow>
        installed_decoder original buffer msd h = d buffer msd h)
   \<and> (msdDecoders (buffer_index buffer 1) = None \<and> original = Some f \<longrightarrow>
        installed_decoder original buffer msd h = f buffer msd h)
   \<and> (msdDecoders (buffer_index buffer 1) = None \<and> original = None \<longrightarrow>
        installed_decoder original buffer msd h = (Inr (), h))
   \<and> (fst (installed_decoder original buffer msd h) = Inl e \<longrightarrow>
        (buffer_index buffer 1 = Some Nav \<and> length buffer < 14 \<and> e = RangeError)
        \<or> (msdDecoders (buffer_index buffer 1) = None
            \<and> (\<exists>g. original = Some g \<and> fst (g buffer msd h) = Inl e)))
   \<and> (14 \<le> length buffer \<and> buffer ! 1 = Nav \<longrightarrow>
        fst (installed_decoder original buffer msd h) = Inr ())"
proof (intro conjI impI)
  show "registerManufacturerSpecificDataDecoder E reg (ManufacturerSpecificData E) =
     Some (installed_decoder (reg (ManufacturerSpecificData E)))"
    by (simp add: registerManufacturerSpecificDataDecoder_def)
  show "registerManufacturerSpecificDataDecoder E reg t = reg t"
    if "t \<noteq> ManufacturerSpecificData E"
    using that by (simp add: registerManufacturerSpecificDataDecoder_def)
  show "installed_decoder original buffer msd h = d buffer msd h"
    if "msdDecoders (buffer_index buffer 1) = Some d"
    using that by (simp add: installed_decoder_def)
  show "installed_decoder original buffer msd h = f buffer msd h"
    if "msdDecoders (buffer_index buffer 1) = None \<and> original = Some f"
    using that by (simp add: installed_decoder_def)
  show "installed_decoder original buffer msd h = (Inr (), h)"
    if "msdDecoders (buffer_index buffer 1) = None \<and> original = None"
    using that by (simp add: installed_decoder_def)
  show "(buffer_index buffer 1 = Some Nav \<and> length buffer < 14 \<and> e = RangeError)
        \<or> (msdDecoders (buffer_index buffer 1) = None
            \<and> (\<exists>g. original = Some g \<and> fst (g buffer msd h) = Inl e))"
    if err: "fst (installed_decoder original buffer msd h) = Inl e"
  proof (cases "msdDecoders (buffer_index buffer 1)")
    case None
    with err show ?thesis
      by (cases original) (simp_all add: installed_decoder_def)
  next
    case (Some d)
    then have reg: "buffer_index buffer 1 = Some 0x89" and d: "d = Nav_decoder"
      by (simp_all add: msdDecoders_Some_iff)
    from err Some d have nav: "fst (Nav_decoder buffer msd h) = Inl e"
      by (simp add: installed_decoder_def)
    have short: "length buffer < 14"
    proof (rule ccontr)
      assume "\<not> length buffer < 14"
      then have "fst (Nav_decoder buffer msd h) = Inr ()"
        by (simp add: Nav_decoder_long_fst)
      with nav show False by simp
    qed
    with nav have "e = RangeError" by (simp add: Nav_decoder_short)
    with reg short show ?thesis by (simp add: Nav_def)
  qed
  show "fst (installed_decoder original buffer msd h) = Inr ()"
    if "14 \<le> length buffer \<and> buffer ! 1 = Nav"
  proof -
    from that have "msdDecoders (buffer_index buffer 1) = Some Nav_decoder"
      by (simp add: buffer_index_1_long msdDecoders_def)
    with that show ?thesis
      by (simp add: installed_decoder_def Nav_decoder_long_fst)
  qed
qed

theorem installed_decoder_dispatch_witness:
  "registerManufacturerSpecificDataDecoder bluetooth_EirDataType empty_registry
       (ManufacturerSpecificData bluetooth_EirDataType) =
     Some (installed_decoder (empty_registry (ManufacturerSpecificData bluetooth_EirDataType)))
   \<and> 0 \<noteq> ManufacturerSpecificData bluetooth_EirDataType
   \<and> registerManufacturerSpecificDataDecoder bluetooth_EirDataType empty_registry 0 =
       empty_registry 0
   \<and> msdDecoders (buffer_index Nav_example 1) = Some Nav_decoder
   \<and> installed_decoder None Nav_example 0 [[]] = Nav_decoder Nav_example 0 [[]]
   \<and> msdDecoders (buffer_index [0x4C, 0xFF] 1) = None
   \<and> installed_decoder (Some Nav_decoder) [0x4C, 0xFF] 0 [[]] = Nav_decoder [0x4C, 0xFF] 0 [[]]
   \<and> installed_decoder None [0x4C, 0xFF] 0 [[]] = (Inr (), [[]])
   \<and> fst (installed_decoder (Some Nav_decoder) [0x4C, 0xFF] 0 [[]]) = Inl RangeError
   \<and> ((buffer_index [0x4C, 0xFF] 1 = Some Nav \<and> length [0x4C :: byte, 0xFF] < 14
         \<and> RangeError = RangeError)
        \<or> (msdDecoders (buffer_index [0x4C, 0xFF] 1) = None
            \<and> (\<exists>g. Some Nav_decoder = Some g \<and> fst (g [0x4C, 0xFF] 0 [[]]) = Inl RangeError)))
   \<and> 14 \<le> length Nav_example \<and> Nav_example ! 1 = Nav
   \<and> fst (installed_decoder None Nav_example 0 [[]]) = Inr ()"
proof -
  have tag: "0 \<noteq> ManufacturerSpecificData bluetooth_EirDataType"
    by (simp add: bluetooth_EirDataType_def)
  have known: "msdDecoders (buffer_index Nav_example 1) = Some Nav_decoder"
    by (simp add: msdDecoders_def buffer_index_def Nav_example_def Nav_def)
  have unknown: "msdDecoders (buffer_index [0x4C, 0xFF] 1) = None"
    by (simp add: msdDecoders_def buffer_index_def Nav_def)
  have long: "14 \<le> length Nav_example \<and> Nav_example ! 1 = Nav"
    by (simp add: Nav_example_def Nav_def)
  note reg = installed_decoder_dispatch [where E = bluetooth_EirDataType and reg = empty_registry
      and t = 0 and msd = 0 and h = "[[]]"]
  note a = reg [where buffer = Nav_example and original = None and d = Nav_decoder]
  note b = reg [where buffer = "[0x4C, 0xFF]" and original = None]
  note c = reg [where buffer = "[0x4C, 0xFF]" and original = "Some Nav_decoder"
      and f = Nav_decoder and e = RangeError]
  from c unknown
  have fall: "installed_decoder (Some Nav_decoder) [0x4C, 0xFF] 0 [[]] =
      Nav_decoder [0x4C, 0xFF] 0 [[]]"
    by blast
  then have err: "fst (installed_decoder (Some Nav_decoder) [0x4C, 0xFF] 0 [[]]) = Inl RangeError"
    by (simp add: Nav_decoder_short)
  from a have r1: "registerManufacturerSpecificDataDecoder bluetooth_EirDataType empty_registry
       (ManufacturerSpecificData bluetooth_EirDataType) =
     Some (installed_decoder (empty_registry (ManufacturerSpecificData bluetooth_EirDataType)))"
    by blast
  from a tag have r2: "registerManufacturerSpecificDataDecoder bluetooth_EirDataType empty_registry 0 =
       empty_registry 0"
    by blast
  from a known have k: "installed_decoder None Nav_example 0 [[]] = Nav_decoder Nav_example 0 [[]]"
    by blast
  from b unknown have n: "installed_decoder None [0x4C, 0xFF] 0 [[]] = (Inr (), [[]])"
    by blast
  from c err have origin:
    "(buffer_index [0x4C, 0xFF] 1 = Some Nav \<and> length [0x4C :: byte, 0xFF] < 14
         \<and> RangeError = RangeError)
        \<or> (msdDecoders (buffer_index [0x4C, 0xFF] 1) = None
            \<and> (\<exists>g. Some Nav_decoder = Some g \<and> fst (g [0x4C, 0xFF] 0 [[]]) = Inl RangeError))"
    by blast
  from a long have ok: "fst (installed_decoder None Nav_example 0 [[]]) = Inr ()"
    by blast
  from tag known unknown long fall err r1 r2 k n origin ok show ?thesis by blast
qed

end
